theory Spec2Isabelle
  imports Main "HOL-Library.Word"
begin

unbundle bit_operations_syntax

section \<open>USB Type-C HAL (hal/Usb.cpp): data model\<close>

text \<open>
  Modelled from the spec: the interface types used by \<^verbatim>\<open>Usb.cpp\<close> (\<^verbatim>\<open>PortRoleType\<close>,
  \<^verbatim>\<open>PortRole\<close>, \<^verbatim>\<open>Status\<close>, the role enumerations and \<^verbatim>\<open>PortStatus\<close>) are declared in the
  generated interface headers, which are not part of the source tree. They follow the
  spec's data model (three role axes, the result codes success, error and
  unrecognized-role) and the way the source file uses them; \<open>INVALID_ARGUMENT\<close> is a
  member of the published \<^verbatim>\<open>Status\<close> that the source file never returns.

  \<^verbatim>\<open>PortRoleType\<close> is a scoped enumeration over \<^verbatim>\<open>uint32_t\<close>; the source handles values
  other than its three enumerators in the \<^verbatim>\<open>default:\<close> branch of \<^verbatim>\<open>appendRoleNodeHelper\<close>
  and in the final \<^verbatim>\<open>else\<close> of \<^verbatim>\<open>getCurrentRoleHelper\<close>. \<open>OTHER_TYPE\<close> stands for any such
  value.
\<close>

datatype PortRoleType = DATA_ROLE | POWER_ROLE | MODE | OTHER_TYPE

datatype Status = SUCCESS | ERROR | INVALID_ARGUMENT | UNRECOGNIZED_ROLE

text \<open>\<^verbatim>\<open>struct PortRole { PortRoleType type; uint32_t role; }\<close>\<close>

record PortRole =
  type :: PortRoleType
  role :: "32 word"

text \<open>
  Modelled from the spec: the enumerators of \<^verbatim>\<open>PortPowerRole\<close>, \<^verbatim>\<open>PortDataRole\<close> and
  \<^verbatim>\<open>PortMode_1_1\<close> come from the interface headers missing from the source tree. The spec
  lists the members (PowerRole {none, source, sink}, DataRole {none, host, device}, Mode
  {none, ufp, dfp, audio-accessory, debug-accessory, drp}); the numbers are the ones of the
  published interface. The source only ever compares a \<^verbatim>\<open>uint32_t\<close> with
  \<^verbatim>\<open>static_cast<uint32_t>(...)\<close> of an enumerator or stores such a cast.
\<close>

definition PortPowerRole_NONE :: "32 word" where "PortPowerRole_NONE = 0"
definition PortPowerRole_SOURCE :: "32 word" where "PortPowerRole_SOURCE = 1"
definition PortPowerRole_SINK :: "32 word" where "PortPowerRole_SINK = 2"

definition PortDataRole_NONE :: "32 word" where "PortDataRole_NONE = 0"
definition PortDataRole_HOST :: "32 word" where "PortDataRole_HOST = 1"
definition PortDataRole_DEVICE :: "32 word" where "PortDataRole_DEVICE = 2"

definition PortMode_NONE :: "32 word" where "PortMode_NONE = 0"
definition PortMode_UFP :: "32 word" where "PortMode_UFP = 1"
definition PortMode_DFP :: "32 word" where "PortMode_DFP = 2"
definition PortMode_DRP :: "32 word" where "PortMode_DRP = 3"
definition PortMode_AUDIO_ACCESSORY :: "32 word" where "PortMode_AUDIO_ACCESSORY = 4"
definition PortMode_DEBUG_ACCESSORY :: "32 word" where "PortMode_DEBUG_ACCESSORY = 8"

subsection \<open>Environment and effects\<close>

text \<open>
  The file system the service talks to is an input of the model. \<open>node_exists\<close> answers
  \<^verbatim>\<open>access(path, F_OK) == 0\<close>, \<open>write_ok path content\<close> is the result of
  \<^verbatim>\<open>WriteStringToFile(content, path)\<close>, \<open>file_content\<close> is \<^verbatim>\<open>ReadFileToString\<close>
  (\<open>None\<close> when it fails), \<open>dir_exists\<close> answers whether \<^verbatim>\<open>opendir\<close> succeeds, and
  \<open>typec_entries\<close> lists \<^verbatim>\<open>/sys/class/typec\<close> as pairs of \<^verbatim>\<open>d_name\<close> and
  \<^verbatim>\<open>d_type == DT_LNK\<close> (\<open>None\<close> when the directory cannot be opened). What a sysfs node
  reads back is decided by the kernel, not by what was written to it, so reads and writes
  are independent components. \<open>iteration_rank\<close> fixes the order in which a
  \<^verbatim>\<open>std::unordered_map\<close> keyed by port names is iterated (keys of lower rank first, keys
  of equal rank in the order of insertion): the container does not promise any order, and
  every order of distinct keys is the order of some rank.

  Paths are \<^verbatim>\<open>std::string\<close>s. Every path the modelled functions build is made from a
  port name without a zero byte (the entry points cut the name at its first zero byte,
  directory entries are C strings), so the path and the C string handed to the system call
  coincide.
\<close>

record world =
  node_exists :: "string \<Rightarrow> bool"
  write_ok :: "string \<Rightarrow> string \<Rightarrow> bool"
  file_content :: "string \<Rightarrow> string option"
  dir_exists :: "string \<Rightarrow> bool"
  typec_entries :: "(string \<times> bool) list option"
  iteration_rank :: "string \<Rightarrow> nat"

datatype mutex = mLock | mRoleSwitchLock | mPartnerLock

text \<open>The three registration states of \<^verbatim>\<open>mCallback_1_0\<close> that \<^verbatim>\<open>castFrom\<close> can tell apart.\<close>

datatype callback = CB_1_0 | CB_1_1 | CB_1_2

text \<open>\<^verbatim>\<open>V1_0::PortStatus\<close>, \<^verbatim>\<open>V1_1::PortStatus_1_1\<close> and \<^verbatim>\<open>V1_2::PortStatus\<close>; enumeration-typed
  fields hold the \<^verbatim>\<open>uint32_t\<close> that the source casts into them.\<close>

record PortStatus_1_0 =
  portName :: string
  currentDataRole :: "32 word"
  currentPowerRole :: "32 word"
  currentMode :: "32 word"
  canChangeMode :: bool
  canChangeDataRole :: bool
  canChangePowerRole :: bool
  supportedModes :: "32 word"

record PortStatus_1_1 =
  status :: PortStatus_1_0
  supportedModes_1_1 :: "32 word"
  currentMode_1_1 :: "32 word"

record PortStatus =
  status_1_1 :: PortStatus_1_1
  supportedContaminantProtectionModes :: "32 word"
  supportsEnableContaminantPresenceProtection :: bool
  supportsEnableContaminantPresenceDetection :: bool
  contaminantProtectionStatus :: "32 word"
  contaminantDetectionStatus :: "32 word"

text \<open>Everything observable that the calling thread does, in program order: lock
  operations, assignments to the shared flag \<^verbatim>\<open>mPartnerUp\<close>, file system calls with their
  arguments (\<open>WriteFile path content\<close>), the deadline handed to
  \<^verbatim>\<open>pthread_cond_timedwait\<close>, and the calls on the registered callback.\<close>

datatype event =
    Lock mutex
  | Unlock mutex
  | Store_mPartnerUp bool
  | Access string
  | WriteFile string string
  | ReadFile string
  | OpenDir string
  | CondTimedWait nat
  | NotifyRoleSwitchStatus string PortRole Status
  | NotifyPortStatusChange "PortStatus_1_0 list" Status
  | NotifyPortStatusChange_1_1 "PortStatus_1_1 list" Status
  | NotifyPortStatusChange_1_2 "PortStatus list" Status

text \<open>
  The fields of the \<^verbatim>\<open>Usb\<close> object that the modelled functions touch, the monotonic
  clock, and the log of events.
\<close>

record usb =
  mPartnerUp :: bool
  mContaminantPresence :: bool
  mContaminantStatusPath :: string
  mCallback_1_0 :: "callback option"
  mPowerOpMode :: string
  mMaxPower :: string
  mAttributes :: string
  clock :: nat
  trace :: "event list"

definition emit :: "event \<Rightarrow> usb \<Rightarrow> usb" where
  "emit e s = s\<lparr>trace := trace s @ [e]\<rparr>"

text \<open>\<^verbatim>\<open>WriteStringToFile(content, path)\<close>: the attempt is logged, the world says whether it
  succeeds.\<close>

definition WriteStringToFile :: "world \<Rightarrow> string \<Rightarrow> string \<Rightarrow> usb \<Rightarrow> bool \<times> usb" where
  "WriteStringToFile w content path s = (write_ok w path content, emit (WriteFile path content) s)"

definition ReadFileToString :: "world \<Rightarrow> string \<Rightarrow> usb \<Rightarrow> string option \<times> usb" where
  "ReadFileToString w path s = (file_content w path, emit (ReadFile path) s)"

section \<open>Sysfs port accessor\<close>

text \<open>\<^verbatim>\<open>std::string(portName.c_str())\<close> on a \<^verbatim>\<open>hidl_string\<close>: the characters before the
  first zero byte.\<close>

definition c_str :: "string \<Rightarrow> string" where
  "c_str str = takeWhile (\<lambda>c. c \<noteq> CHR 0x00) str"

text \<open>\<^verbatim>\<open>appendRoleNodeHelper\<close> (lines 71-95). The \<^verbatim>\<open>MODE\<close> case probes \<^verbatim>\<open>port_type\<close> with
  \<^verbatim>\<open>access\<close> and falls through to the \<^verbatim>\<open>DATA_ROLE\<close> case when the node is absent.\<close>

definition appendRoleNodeHelper :: "world \<Rightarrow> string \<Rightarrow> PortRoleType \<Rightarrow> usb \<Rightarrow> string \<times> usb" where
  "appendRoleNodeHelper w pn t s =
     (if pn = ''..'' \<or> CHR ''/'' \<in> set pn then ('''', s)
      else
        let node = ''/sys/class/typec/'' @ pn in
        case t of
          MODE \<Rightarrow>
            (let port_type = node @ ''/port_type''; s1 = emit (Access port_type) s
             in if node_exists w port_type then (port_type, s1)
                else (node @ ''/data_role'', s1))
        | DATA_ROLE \<Rightarrow> (node @ ''/data_role'', s)
        | POWER_ROLE \<Rightarrow> (node @ ''/power_role'', s)
        | OTHER_TYPE \<Rightarrow> ('''', s))"

text \<open>\<^verbatim>\<open>convertRoletoString\<close> (lines 97-112).\<close>

definition convertRoletoString :: "PortRole \<Rightarrow> string" where
  "convertRoletoString r =
     (if type r = POWER_ROLE then
        (if role r = PortPowerRole_SOURCE then ''source''
         else if role r = PortPowerRole_SINK then ''sink''
         else ''none'')
      else if type r = DATA_ROLE then
        (if role r = PortDataRole_HOST then ''host''
         else if role r = PortDataRole_DEVICE then ''device''
         else ''none'')
      else if type r = MODE then
        (if role r = PortMode_UFP then ''sink''
         else if role r = PortMode_DFP then ''source''
         else ''none'')
      else ''none'')"

text \<open>\<^verbatim>\<open>std::string::find(char)\<close>: index of the first occurrence, \<open>None\<close> for \<^verbatim>\<open>npos\<close>.\<close>

fun find_char :: "char \<Rightarrow> string \<Rightarrow> nat option" where
  "find_char c [] = None"
| "find_char c (x # xs) =
     (if x = c then Some 0 else map_option Suc (find_char c xs))"

text \<open>
  \<^verbatim>\<open>extractRole\<close> (lines 114-123). \<^verbatim>\<open>substr(first + 1, last - first - 1)\<close> is computed in
  \<^verbatim>\<open>size_t\<close>: when \<open>]\<close> comes before \<open>[\<close> the count wraps to a number larger than
  any string, and \<^verbatim>\<open>substr\<close> then returns everything after \<open>[\<close>.
\<close>

definition extractRole :: "string \<Rightarrow> string" where
  "extractRole roleName =
     (case (find_char (CHR ''['') roleName, find_char (CHR '']'') roleName) of
        (Some first_pos, Some last_pos) \<Rightarrow>
          (if first_pos < last_pos
           then take (last_pos - first_pos - 1) (drop (first_pos + 1) roleName)
           else drop (first_pos + 1) roleName)
      | _ \<Rightarrow> roleName)"

section \<open>Role switch coordinator\<close>

text \<open>\<^verbatim>\<open>switchToDrp\<close> (lines 125-130): the result of the write is only logged.\<close>

definition switchToDrp :: "world \<Rightarrow> string \<Rightarrow> usb \<Rightarrow> usb" where
  "switchToDrp w pn s =
     (let (filename, s1) = appendRoleNodeHelper w pn MODE s
      in snd (WriteStringToFile w ''dual'' filename s1))"

text \<open>
  The test of \<^verbatim>\<open>handle_typec_uevent\<close> (line 575) on the first line of a uevent:
  \<^verbatim>\<open>!strncmp(msg, "add@", 4) && !strncmp(msg + strlen(msg) - 8, "-partner", 8)\<close>.
  For a message shorter than eight characters that starts with \<open>add@\<close> the second
  comparison runs into the start of the message and fails.
\<close>

definition partner_added :: "string \<Rightarrow> bool" where
  "partner_added msg \<longleftrightarrow>
     take 4 msg = ''add@'' \<and> 8 \<le> length msg \<and> drop (length msg - 8) msg = ''-partner''"

text \<open>
  One return of \<^verbatim>\<open>pthread_cond_timedwait\<close>, as the waiting thread sees it: the wait is
  left \<open>after\<close> clock units after it was entered (by a signal or spuriously), and while
  the partner lock was released the monitor thread handled the type-C uevents
  \<open>uevents\<close>. When \<open>after\<close> reaches the timeout the call returns \<^verbatim>\<open>ETIMEDOUT\<close> at
  its deadline. When no further wake is scripted the wait runs into its deadline.
\<close>

record wake =
  after :: nat
  uevents :: "string list"

text \<open>
  The loop at \<^verbatim>\<open>wait_again:\<close> in \<^verbatim>\<open>switchMode\<close> (lines 152-167). \<open>tmo\<close> is
  \<^verbatim>\<open>PORT_TYPE_TIMEOUT\<close>, a macro of the missing header, taken as a parameter. The label
  stands before \<^verbatim>\<open>clock_gettime\<close>, so each pass computes
  \<^verbatim>\<open>to = now + PORT_TYPE_TIMEOUT\<close> afresh. The result is \<^verbatim>\<open>roleSwitch\<close>.
\<close>

fun wait_again :: "nat \<Rightarrow> wake list \<Rightarrow> usb \<Rightarrow> bool \<times> usb" where
  "wait_again tmo [] s =
     (let now = clock s; to = now + tmo
      in (False, (emit (CondTimedWait to) s)\<lparr>clock := to\<rparr>))"
| "wait_again tmo (k # ks) s =
     (let now = clock s; to = now + tmo;
          s1 = (emit (CondTimedWait to) s)
                 \<lparr>mPartnerUp := mPartnerUp s \<or> (\<exists>m \<in> set (uevents k). partner_added m)\<rparr>
      in if tmo \<le> after k then (False, s1\<lparr>clock := to\<rparr>)
         else
           let s2 = s1\<lparr>clock := now + after k\<rparr>
           in if \<not> mPartnerUp s2 then wait_again tmo ks s2 else (True, s2))"

text \<open>\<^verbatim>\<open>Usb::switchMode\<close> (lines 132-178). \<open>name\<close> is the \<^verbatim>\<open>hidl_string portName\<close> of
  the caller, which may hold zero bytes; the function works on
  \<^verbatim>\<open>std::string(portName.c_str())\<close> (lines 134 and 175).\<close>

definition switchMode :: "world \<Rightarrow> nat \<Rightarrow> wake list \<Rightarrow> string \<Rightarrow> PortRole \<Rightarrow> usb \<Rightarrow> bool \<times> usb" where
  "switchMode w tmo wakes name newRole s =
     (let (filename, s1) = appendRoleNodeHelper w (c_str name) (type newRole) s
      in if filename = '''' then (False, s1)
         else
           let s2 = emit (Lock mPartnerLock) s1;
               s3 = (emit (Store_mPartnerUp False) s2)\<lparr>mPartnerUp := False\<rparr>;
               (written, s4) = WriteStringToFile w (convertRoletoString newRole) filename s3;
               (roleSwitch, s5) = (if written then wait_again tmo wakes s4 else (False, s4));
               s6 = emit (Unlock mPartnerLock) s5;
               s7 = (if \<not> roleSwitch then switchToDrp w (c_str name) s6 else s6)
           in (roleSwitch, s7))"

text \<open>\<^verbatim>\<open>Usb::switchRole\<close> (lines 207-257). The function returns \<^verbatim>\<open>Void()\<close>; its outcome
  is the notification it logs. The path is resolved from
  \<^verbatim>\<open>std::string(portName.c_str())\<close> (line 210); \<^verbatim>\<open>switchMode\<close> and the callback receive
  the \<^verbatim>\<open>hidl_string\<close> itself.\<close>

definition switchRole :: "world \<Rightarrow> nat \<Rightarrow> wake list \<Rightarrow> string \<Rightarrow> PortRole \<Rightarrow> usb \<Rightarrow> usb" where
  "switchRole w tmo wakes name newRole s =
     (let (filename, s1) = appendRoleNodeHelper w (c_str name) (type newRole) s
      in if filename = '''' then s1
         else
           let s2 = emit (Lock mRoleSwitchLock) s1;
               (roleSwitch, s3) =
                 (if type newRole = MODE then switchMode w tmo wakes name newRole s2
                  else
                    let (ok, s2a) = WriteStringToFile w (convertRoletoString newRole) filename s2
                    in if ok then
                         (let (r, s2b) = ReadFileToString w filename s2a
                          in case r of
                               Some written \<Rightarrow>
                                 (extractRole written = convertRoletoString newRole, s2b)
                             | None \<Rightarrow> (False, s2b))
                       else (False, s2a));
               s4 = emit (Lock mLock) s3;
               s5 = (if mCallback_1_0 s4 \<noteq> None
                     then emit (NotifyRoleSwitchStatus name newRole
                                  (if roleSwitch then SUCCESS else ERROR)) s4
                     else s4);
               s6 = emit (Unlock mLock) s5
           in emit (Unlock mRoleSwitchLock) s6)"

section \<open>Port status aggregator\<close>

text \<open>\<^verbatim>\<open>android::base::Trim\<close> (library code): strips leading and trailing characters for
  which \<^verbatim>\<open>isspace\<close> holds in the C locale.\<close>

definition isspace :: "char \<Rightarrow> bool" where
  "isspace c \<longleftrightarrow> c \<in> {CHR '' '', CHR 0x09, CHR 0x0A, CHR 0x0B, CHR 0x0C, CHR 0x0D}"

definition Trim :: "string \<Rightarrow> string" where
  "Trim str = rev (dropWhile isspace (rev (dropWhile isspace str)))"

text \<open>\<^verbatim>\<open>str[0] == c\<close> on a \<^verbatim>\<open>std::string\<close>: for the empty string \<^verbatim>\<open>str[0]\<close> is the
  terminating zero character.\<close>

definition first_char_is :: "char \<Rightarrow> string \<Rightarrow> bool" where
  "first_char_is c str = (case str of [] \<Rightarrow> False | x # _ \<Rightarrow> x = c)"

text \<open>\<^verbatim>\<open>getAccessoryConnected\<close> (lines 259-270).\<close>

definition getAccessoryConnected :: "world \<Rightarrow> string \<Rightarrow> usb \<Rightarrow> (Status \<times> string) \<times> usb" where
  "getAccessoryConnected w pn s =
     (let filename = ''/sys/class/typec/'' @ pn @ ''-partner/accessory_mode'';
          (r, s1) = ReadFileToString w filename s
      in case r of
           None \<Rightarrow> ((ERROR, ''''), s1)
         | Some accessory \<Rightarrow> ((SUCCESS, Trim accessory), s1))"

text \<open>
  \<^verbatim>\<open>getCurrentRoleHelper\<close> (lines 272-336). \<open>currentRole\<close> is the reference parameter:
  its incoming value is returned untouched when the type is none of the three enumerators.
\<close>

definition getCurrentRoleHelper ::
  "world \<Rightarrow> string \<Rightarrow> bool \<Rightarrow> PortRoleType \<Rightarrow> 32 word \<Rightarrow> usb \<Rightarrow> (Status \<times> 32 word) \<times> usb" where
  "getCurrentRoleHelper w pn connected t currentRole s =
     (if t = OTHER_TYPE then ((ERROR, currentRole), s)
      else
        let cur0 = (if t = POWER_ROLE then PortPowerRole_NONE
                    else if t = DATA_ROLE then PortDataRole_NONE
                    else PortMode_NONE)
        in if \<not> connected then ((SUCCESS, cur0), s)
           else
             let ((acc_st, accessory), s1) =
                   (if t = MODE then getAccessoryConnected w pn s else ((SUCCESS, ''''), s))
             in if t = MODE \<and> acc_st \<noteq> SUCCESS then ((ERROR, cur0), s1)
                else if t = MODE \<and> accessory = ''analog_audio''
                  then ((SUCCESS, PortMode_AUDIO_ACCESSORY), s1)
                else if t = MODE \<and> accessory = ''debug''
                  then ((SUCCESS, PortMode_DEBUG_ACCESSORY), s1)
                else
                  let (filename, s2) = appendRoleNodeHelper w pn t s1;
                      (r, s3) = ReadFileToString w filename s2
                  in case r of
                       None \<Rightarrow> ((ERROR, cur0), s3)
                     | Some content \<Rightarrow>
                         (let roleName = extractRole content
                          in if roleName = ''source'' then ((SUCCESS, PortPowerRole_SOURCE), s3)
                             else if roleName = ''sink'' then ((SUCCESS, PortPowerRole_SINK), s3)
                             else if roleName = ''host'' then
                               ((SUCCESS, if t = DATA_ROLE then PortDataRole_HOST else PortMode_DFP), s3)
                             else if roleName = ''device'' then
                               ((SUCCESS, if t = DATA_ROLE then PortDataRole_DEVICE else PortMode_UFP), s3)
                             else if roleName \<noteq> ''none'' then ((UNRECOGNIZED_ROLE, cur0), s3)
                             else ((SUCCESS, cur0), s3)))"

text \<open>\<^verbatim>\<open>std::string::find(const char *)\<close>: index of the first occurrence of a substring.\<close>

fun find_str :: "string \<Rightarrow> string \<Rightarrow> nat option" where
  "find_str pat [] = (if pat = [] then Some 0 else None)"
| "find_str pat (x # xs) =
     (if take (length pat) (x # xs) = pat then Some 0
      else map_option Suc (find_str pat xs))"

text \<open>
  \<^verbatim>\<open>getTypeCPortNamesHelper\<close> (lines 338-366). The \<^verbatim>\<open>unordered_map\<close> is built as an
  association list with one pair per key (\<open>names_insert\<close> is one pass of the
  \<^verbatim>\<open>readdir\<close> loop) and returned in the order in which the callers' range-for loops will
  iterate it, which the environment decides (\<open>iteration_rank\<close>).
\<close>

definition names_insert :: "(string \<times> bool) list \<Rightarrow> string \<times> bool \<Rightarrow> (string \<times> bool) list" where
  "names_insert names e =
     (let entry = fst e in
      if \<not> snd e then names
      else case find_str ''-partner'' entry of
             None \<Rightarrow> (if map_of names entry = None then names @ [(entry, False)] else names)
           | Some n \<Rightarrow>
               (let key = take n entry
                in if map_of names key = None then names @ [(key, True)]
                   else map (\<lambda>kv. if fst kv = key then (key, True) else kv) names))"

definition getTypeCPortNamesHelper :: "world \<Rightarrow> usb \<Rightarrow> (string \<times> bool) list \<times> usb" where
  "getTypeCPortNamesHelper w s =
     (let s1 = emit (OpenDir ''/sys/class/typec'') s
      in case typec_entries w of
           None \<Rightarrow> ([], s1)
         | Some entries \<Rightarrow>
             (sort_key (\<lambda>kv. iteration_rank w (fst kv)) (foldl names_insert [] entries), s1))"

text \<open>\<^verbatim>\<open>canSwitchRoleHelper\<close> (lines 368-379).\<close>

definition canSwitchRoleHelper :: "world \<Rightarrow> string \<Rightarrow> usb \<Rightarrow> bool \<times> usb" where
  "canSwitchRoleHelper w pn s =
     (let filename = ''/sys/class/typec/'' @ pn @ ''-partner/supports_usb_power_delivery'';
          (r, s1) = ReadFileToString w filename s
      in case r of
           Some supportsPD \<Rightarrow> (first_char_is (CHR ''y'') supportsPD, s1)
         | None \<Rightarrow> (False, s1))"

text \<open>Modelled from the spec: the contaminant enumerations of the missing interface
  headers, with the numbers of the published interface; the source only stores them.\<close>

definition ContaminantProtectionMode_NONE :: "32 word" where
  "ContaminantProtectionMode_NONE = 0"
definition ContaminantProtectionMode_FORCE_SINK :: "32 word" where
  "ContaminantProtectionMode_FORCE_SINK = 1"
definition ContaminantProtectionMode_FORCE_DISABLE :: "32 word" where
  "ContaminantProtectionMode_FORCE_DISABLE = 4"
definition ContaminantProtectionStatus_NONE :: "32 word" where
  "ContaminantProtectionStatus_NONE = 0"
definition ContaminantProtectionStatus_FORCE_SINK :: "32 word" where
  "ContaminantProtectionStatus_FORCE_SINK = 1"
definition ContaminantDetectionStatus_NOT_DETECTED :: "32 word" where
  "ContaminantDetectionStatus_NOT_DETECTED = 2"
definition ContaminantDetectionStatus_DETECTED :: "32 word" where
  "ContaminantDetectionStatus_DETECTED = 3"

text \<open>A value-initialised element, as \<^verbatim>\<open>hidl_vec::resize\<close> creates it.\<close>

definition PortStatus_1_0_init :: PortStatus_1_0 where
  "PortStatus_1_0_init =
     \<lparr>portName = '''', currentDataRole = 0, currentPowerRole = 0, currentMode = 0,
      canChangeMode = False, canChangeDataRole = False, canChangePowerRole = False,
      supportedModes = 0\<rparr>"

definition PortStatus_1_1_init :: PortStatus_1_1 where
  "PortStatus_1_1_init =
     \<lparr>status = PortStatus_1_0_init, supportedModes_1_1 = 0, currentMode_1_1 = 0\<rparr>"

definition PortStatus_init :: PortStatus where
  "PortStatus_init =
     \<lparr>status_1_1 = PortStatus_1_1_init, supportedContaminantProtectionModes = 0,
      supportsEnableContaminantPresenceProtection = False,
      supportsEnableContaminantPresenceDetection = False,
      contaminantProtectionStatus = 0, contaminantDetectionStatus = 0\<rparr>"

text \<open>Assignment to a field of \<^verbatim>\<open>status_1_2.status_1_1.status\<close> and of
  \<^verbatim>\<open>status_1_2.status_1_1\<close>.\<close>

definition upd_status :: "(PortStatus_1_0 \<Rightarrow> PortStatus_1_0) \<Rightarrow> PortStatus \<Rightarrow> PortStatus" where
  "upd_status f p = p\<lparr>status_1_1 := (status_1_1 p)\<lparr>status := f (status (status_1_1 p))\<rparr>\<rparr>"

definition upd_status_1_1 :: "(PortStatus_1_1 \<Rightarrow> PortStatus_1_1) \<Rightarrow> PortStatus \<Rightarrow> PortStatus" where
  "upd_status_1_1 f p = p\<lparr>status_1_1 := f (status_1_1 p)\<rparr>"

text \<open>
  The tail of the loop body of \<^verbatim>\<open>getPortStatusHelper\<close> for the 1.1/1.2 layout
  (lines 442-471).
\<close>

definition port_status_extended :: "world \<Rightarrow> string \<Rightarrow> string \<Rightarrow> PortStatus \<Rightarrow> usb \<Rightarrow> PortStatus \<times> usb" where
  "port_status_extended w contaminantStatusPath pn p s =
     (let p1 = upd_status_1_1
                 (\<lambda>x. x\<lparr>supportedModes_1_1 := PortMode_DRP OR PortMode_AUDIO_ACCESSORY\<rparr>) p;
          p2 = upd_status (\<lambda>x. x\<lparr>supportedModes := PortMode_NONE, currentMode := PortMode_NONE\<rparr>) p1;
          p3 = p2\<lparr>supportedContaminantProtectionModes :=
                     ContaminantProtectionMode_FORCE_SINK OR ContaminantProtectionMode_FORCE_DISABLE,
                   supportsEnableContaminantPresenceProtection := False,
                   supportsEnableContaminantPresenceDetection := False,
                   contaminantProtectionStatus := ContaminantProtectionStatus_FORCE_SINK\<rparr>
      in if pn \<noteq> ''port0'' then (p3, s)
         else
           let (r, s1) = (if contaminantStatusPath \<noteq> ''''
                          then ReadFileToString w contaminantStatusPath s else (None, s))
           in case r of
                Some contaminantPresence \<Rightarrow>
                  (p3\<lparr>contaminantDetectionStatus :=
                        (if first_char_is (CHR ''1'') contaminantPresence
                         then ContaminantDetectionStatus_DETECTED
                         else ContaminantDetectionStatus_NOT_DETECTED)\<rparr>, s1)
              | None \<Rightarrow>
                  (p3\<lparr>supportedContaminantProtectionModes :=
                        ContaminantProtectionMode_NONE OR ContaminantProtectionMode_NONE,
                      contaminantProtectionStatus := ContaminantProtectionStatus_NONE\<rparr>, s1))"

text \<open>
  One pass of the loop body of \<^verbatim>\<open>getPortStatusHelper\<close> (lines 393-472) on the element
  \<open>p\<close> of the vector. The boolean is false when the body leaves through
  \<^verbatim>\<open>goto done\<close>; the element then keeps what was assigned so far. The local
  \<^verbatim>\<open>currentRole\<close> has no initialiser; each of the three calls assigns it before use, so
  the value passed in is immaterial.
\<close>

definition port_status_body ::
  "world \<Rightarrow> bool \<Rightarrow> string \<Rightarrow> string \<Rightarrow> bool \<Rightarrow> PortStatus \<Rightarrow> usb \<Rightarrow> (bool \<times> PortStatus) \<times> usb" where
  "port_status_body w V1_0 contaminantStatusPath pn connected p s =
     (let p1 = upd_status (\<lambda>x. x\<lparr>portName := pn\<rparr>) p;
          ((st_p, role_p), s1) = getCurrentRoleHelper w pn connected POWER_ROLE 0 s
      in if st_p \<noteq> SUCCESS then ((False, p1), s1)
         else
           let p2 = upd_status (\<lambda>x. x\<lparr>currentPowerRole := role_p\<rparr>) p1;
               ((st_d, role_d), s2) = getCurrentRoleHelper w pn connected DATA_ROLE role_p s1
           in if st_d \<noteq> SUCCESS then ((False, p2), s2)
              else
                let p3 = upd_status (\<lambda>x. x\<lparr>currentDataRole := role_d\<rparr>) p2;
                    ((st_m, role_m), s3) = getCurrentRoleHelper w pn connected MODE role_d s2
                in if st_m \<noteq> SUCCESS then ((False, p3), s3)
                   else
                     let p4 = upd_status_1_1 (\<lambda>x. x\<lparr>currentMode_1_1 := role_m\<rparr>) p3;
                         p5 = upd_status (\<lambda>x. x\<lparr>currentMode := role_m\<rparr>) p4;
                         p6 = upd_status (\<lambda>x. x\<lparr>canChangeMode := True\<rparr>) p5;
                         (cd, s4) = (if connected then canSwitchRoleHelper w pn s3 else (False, s3));
                         p7 = upd_status (\<lambda>x. x\<lparr>canChangeDataRole := cd\<rparr>) p6;
                         (cp, s5) = (if connected then canSwitchRoleHelper w pn s4 else (False, s4));
                         p8 = upd_status (\<lambda>x. x\<lparr>canChangePowerRole := cp\<rparr>) p7
                     in if V1_0
                        then ((True, upd_status (\<lambda>x. x\<lparr>supportedModes := PortMode_DFP\<rparr>) p8), s5)
                        else
                          let (p9, s6) = port_status_extended w contaminantStatusPath pn p8 s5
                          in ((True, p9), s6))"

text \<open>The loop of \<^verbatim>\<open>getPortStatusHelper\<close> over the map, filling element \<open>i\<close> of the
  vector \<open>v\<close>.\<close>

fun port_status_loop ::
  "world \<Rightarrow> bool \<Rightarrow> string \<Rightarrow> (string \<times> bool) list \<Rightarrow> nat \<Rightarrow> PortStatus list \<Rightarrow> usb
     \<Rightarrow> (Status \<times> PortStatus list) \<times> usb" where
  "port_status_loop w V1_0 cpath [] i v s = ((SUCCESS, v), s)"
| "port_status_loop w V1_0 cpath (n # ns) i v s =
     (let ((ok, p), s1) = port_status_body w V1_0 cpath (fst n) (snd n) (v ! i) s
      in if ok then port_status_loop w V1_0 cpath ns (i + 1) (v[i := p]) s1
         else ((ERROR, v[i := p]), s1))"

text \<open>\<^verbatim>\<open>getPortStatusHelper\<close> (lines 385-478). Every caller passes a fresh, empty
  vector.\<close>

definition getPortStatusHelper :: "world \<Rightarrow> bool \<Rightarrow> string \<Rightarrow> usb \<Rightarrow> (Status \<times> PortStatus list) \<times> usb" where
  "getPortStatusHelper w V1_0 contaminantStatusPath s =
     (let (names, s1) = getTypeCPortNamesHelper w s
      in if names \<noteq> []
         then port_status_loop w V1_0 contaminantStatusPath names 0
                (replicate (length names) PortStatus_init) s1
         else ((ERROR, []), s1))"

text \<open>\<^verbatim>\<open>Usb::queryPortStatus\<close> (lines 480-525).\<close>

definition queryPortStatus :: "world \<Rightarrow> usb \<Rightarrow> usb" where
  "queryPortStatus w s =
     (let s1 = emit (Lock mLock) s;
          s2 = (case mCallback_1_0 s1 of
                  None \<Rightarrow> s1
                | Some CB_1_0 \<Rightarrow>
                    (let ((st, v), s') = getPortStatusHelper w True (mContaminantStatusPath s1) s1
                     in emit (NotifyPortStatusChange (map (\<lambda>p. status (status_1_1 p)) v) st) s')
                | Some CB_1_1 \<Rightarrow>
                    (let ((st, v), s') = getPortStatusHelper w False (mContaminantStatusPath s1) s1
                     in emit (NotifyPortStatusChange_1_1
                                (map (\<lambda>p. PortStatus_1_1_init\<lparr>status := status (status_1_1 p)\<rparr>) v)
                                st) s')
                | Some CB_1_2 \<Rightarrow>
                    (let ((st, v), s') = getPortStatusHelper w False (mContaminantStatusPath s1) s1
                     in emit (NotifyPortStatusChange_1_2 v st) s'))
      in emit (Unlock mLock) s2)"

section \<open>Uevent monitor\<close>

text \<open>
  \<^verbatim>\<open>handle_typec_uevent\<close> (lines 570-605). \<^verbatim>\<open>ReadFileToString\<close> into a member clears
  the member first, so a failed read leaves it empty.
\<close>

definition handle_typec_uevent :: "world \<Rightarrow> string \<Rightarrow> usb \<Rightarrow> usb" where
  "handle_typec_uevent w msg s =
     (let s1 = (if partner_added msg
                then emit (Unlock mPartnerLock)
                       ((emit (Store_mPartnerUp True) (emit (Lock mPartnerLock) s))
                          \<lparr>mPartnerUp := True\<rparr>)
                else s);
          (r, s2) = ReadFileToString w ''/sys/class/typec/port0/power_operation_mode'' s1;
          s3 = (case r of
                  None \<Rightarrow> s2
                | Some content \<Rightarrow>
                    (let power_operation_mode = Trim content;
                         s' =
                           (if mPowerOpMode s2 = power_operation_mode then s2
                            else if power_operation_mode = ''usb_power_delivery'' then
                              (let (r1, a1) = ReadFileToString w
                                     ''/config/usb_gadget/g1/configs/b.1/MaxPower'' s2;
                                   a2 = a1\<lparr>mMaxPower := (case r1 of Some c \<Rightarrow> c | None \<Rightarrow> '''')\<rparr>;
                                   (r2, a3) = ReadFileToString w
                                     ''/config/usb_gadget/g1/configs/b.1/bmAttributes'' a2;
                                   a4 = a3\<lparr>mAttributes := (case r2 of Some c \<Rightarrow> c | None \<Rightarrow> '''')\<rparr>;
                                   a5 = snd (WriteStringToFile w ''0''
                                     ''/config/usb_gadget/g1/configs/b.1/MaxPower'' a4)
                               in snd (WriteStringToFile w ''0xc0''
                                     ''/config/usb_gadget/g1/configs/b.1/bmAttributes'' a5))
                            else if mMaxPower s2 \<noteq> '''' then
                              (let b1 = snd (WriteStringToFile w (mMaxPower s2)
                                     ''/config/usb_gadget/g1/configs/b.1/MaxPower'' s2);
                                   b2 = snd (WriteStringToFile w (mAttributes b1)
                                     ''/config/usb_gadget/g1/configs/b.1/bmAttributes'' b1)
                               in b2\<lparr>mMaxPower := ''''\<rparr>)
                            else s2)
                     in s'\<lparr>mPowerOpMode := power_operation_mode\<rparr>))
      in queryPortStatus w s3)"

text \<open>
  The scan of \<^verbatim>\<open>handle_psy_uevent\<close> (lines 622-633) over the zero-terminated
  \<open>KEY=value\<close> strings that follow the first line of a uevent; the buffer ends with an
  empty string. The result is false when the function returns from inside the loop
  (\<^verbatim>\<open>POWER_SUPPLY_NAME\<close> is present and is not \<open>usb\<close>).
\<close>

fun psy_name_is_usb :: "string list \<Rightarrow> bool" where
  "psy_name_is_usb [] = True"
| "psy_name_is_usb (kv # rest) =
     (if kv = '''' then True
      else if take 18 kv = ''POWER_SUPPLY_NAME='' then drop 18 kv = ''usb''
      else psy_name_is_usb rest)"

text \<open>The loop of \<^verbatim>\<open>handle_psy_uevent\<close> over the pushed snapshot (lines 653-663).\<close>

fun drp_disconnected :: "world \<Rightarrow> PortStatus list \<Rightarrow> usb \<Rightarrow> usb" where
  "drp_disconnected w [] s = s"
| "drp_disconnected w (p # ps) s =
     (let pn = portName (status (status_1_1 p));
          dir = ''/sys/class/typec/'' @ pn @ ''-partner'';
          s1 = emit (OpenDir dir) s;
          s2 = (if \<not> dir_exists w dir then switchToDrp w pn s1 else s1)
      in drp_disconnected w ps s2)"

text \<open>
  \<^verbatim>\<open>handle_psy_uevent\<close> (lines 608-666). \<open>msg\<close> is the list of strings after the first
  line; \<open>busy\<close> says that \<^verbatim>\<open>pthread_mutex_trylock(&usb->mRoleSwitchLock)\<close> fails because
  another thread holds the lock.
\<close>

definition handle_psy_uevent :: "world \<Rightarrow> bool \<Rightarrow> string list \<Rightarrow> usb \<Rightarrow> usb" where
  "handle_psy_uevent w busy msg s =
     (if mCallback_1_0 s \<noteq> Some CB_1_2 then s
      else if \<not> psy_name_is_usb msg then s
      else if mContaminantStatusPath s = '''' then s
      else
        let (r, s1) = ReadFileToString w (mContaminantStatusPath s) s
        in case r of
             None \<Rightarrow> s1
           | Some contaminantPresence \<Rightarrow>
               (let moisture_detected = first_char_is (CHR ''1'') contaminantPresence;
                    (currentPortStatus_1_2, s2) =
                      (if mContaminantPresence s1 \<noteq> moisture_detected then
                         (let s1a = s1\<lparr>mContaminantPresence := moisture_detected\<rparr>;
                              ((st, v), s1b) =
                                getPortStatusHelper w False (mContaminantStatusPath s1a) s1a
                          in (v, emit (NotifyPortStatusChange_1_2 v st) s1b))
                       else ([], s1))
                in if busy then s2
                   else emit (Unlock mRoleSwitchLock)
                          (drp_disconnected w currentPortStatus_1_2
                             (emit (Lock mRoleSwitchLock) s2))))"

text \<open>Projections of the event log.\<close>

fun writes :: "event list \<Rightarrow> (string \<times> string) list" where
  "writes [] = []"
| "writes (WriteFile p c # es) = (p, c) # writes es"
| "writes (e # es) = writes es"

fun is_file_io :: "event \<Rightarrow> bool" where
  "is_file_io (Access p) = True"
| "is_file_io (WriteFile p c) = True"
| "is_file_io (ReadFile p) = True"
| "is_file_io (OpenDir p) = True"
| "is_file_io e = False"

fun waits :: "event list \<Rightarrow> nat list" where
  "waits [] = []"
| "waits (CondTimedWait t # es) = t # waits es"
| "waits (e # es) = waits es"

fun stores :: "event list \<Rightarrow> bool list" where
  "stores [] = []"
| "stores (Store_mPartnerUp b # es) = b # stores es"
| "stores (e # es) = stores es"

fun role_switch_results :: "event list \<Rightarrow> Status list" where
  "role_switch_results [] = []"
| "role_switch_results (NotifyRoleSwitchStatus p r st # es) = st # role_switch_results es"
| "role_switch_results (e # es) = role_switch_results es"

fun status_pushes :: "event list \<Rightarrow> event list" where
  "status_pushes [] = []"
| "status_pushes (NotifyPortStatusChange v st # es) = NotifyPortStatusChange v st # status_pushes es"
| "status_pushes (NotifyPortStatusChange_1_1 v st # es) =
     NotifyPortStatusChange_1_1 v st # status_pushes es"
| "status_pushes (NotifyPortStatusChange_1_2 v st # es) =
     NotifyPortStatusChange_1_2 v st # status_pushes es"
| "status_pushes (e # es) = status_pushes es"

section \<open>Reference notions and example inputs\<close>

text \<open>The state the constructor \<^verbatim>\<open>Usb::Usb()\<close> leaves (lines 180-204), with no callback
  registered, an empty log and the clock at zero.\<close>

definition usb_init :: usb where
  "usb_init =
     \<lparr>mPartnerUp = False, mContaminantPresence = False, mContaminantStatusPath = '''',
      mCallback_1_0 = None, mPowerOpMode = '''', mMaxPower = '''', mAttributes = '''',
      clock = 0, trace = []\<rparr>"

text \<open>The path \<^verbatim>\<open>appendRoleNodeHelper\<close> computes; it does not depend on the object.\<close>

definition role_node :: "world \<Rightarrow> string \<Rightarrow> PortRoleType \<Rightarrow> string" where
  "role_node w pn t = fst (appendRoleNodeHelper w pn t usb_init)"

text \<open>
  What the code takes as confirmation in time, read on a script of wakes: some wake
  carries a partner-added uevent, and it and every wake before it left its wait before
  the timeout of that wait (the deadline is computed anew for every wait).
\<close>

definition confirmed :: "nat \<Rightarrow> wake list \<Rightarrow> bool" where
  "confirmed tmo ks \<longleftrightarrow>
     (\<exists>n \<in> {0..<length ks}. (\<forall>i \<in> {0..n}. after (ks ! i) < tmo) \<and>
        (\<exists>m \<in> set (uevents (ks ! n)). partner_added m))"

text \<open>
  The spec's "the confirmation signal arrives before the deadline", with the deadline
  fixed once at the start of the wait: some wake carries a partner-added uevent, and the
  time from the start of the first wait to that wake is less than the timeout.
\<close>

definition confirmed_fixed :: "nat \<Rightarrow> wake list \<Rightarrow> bool" where
  "confirmed_fixed tmo ks \<longleftrightarrow>
     (\<exists>n \<in> {0..<length ks}. sum_list (map after (take (Suc n) ks)) < tmo \<and>
        (\<exists>m \<in> set (uevents (ks ! n)). partner_added m))"

text \<open>A sysfs in which every write is accepted, \<^verbatim>\<open>port_type\<close> nodes are absent (the UCSI
  case of the source comment) and the data role of \<open>port1\<close> reads back as device.\<close>

definition sysfs_accepting :: world where
  "sysfs_accepting =
     \<lparr>node_exists = (\<lambda>p. False), write_ok = (\<lambda>p c. True),
      file_content = (\<lambda>p. if p = ''/sys/class/typec/port1/data_role''
                           then Some ''host [device]'' else None),
      dir_exists = (\<lambda>p. False), typec_entries = None,
      iteration_rank = (\<lambda>k. 0)\<rparr>"

text \<open>A sysfs that refuses every write.\<close>

definition sysfs_refusing :: world where
  "sysfs_refusing =
     \<lparr>node_exists = (\<lambda>p. False), write_ok = (\<lambda>p c. False), file_content = (\<lambda>p. None),
      dir_exists = (\<lambda>p. False), typec_entries = None,
      iteration_rank = (\<lambda>k. 0)\<rparr>"

text \<open>Two wakes of the timed wait: one three clock units in, after the monitor saw a
  partner-added uevent, and a spurious one five units in.\<close>

definition partner_wake :: wake where
  "partner_wake = \<lparr>after = 3, uevents = [''add@/devices/platform/soc/typec/port0/port0-partner'']\<rparr>"

definition spurious_wake :: wake where
  "spurious_wake = \<lparr>after = 5, uevents = []\<rparr>"

text \<open>A spurious wake two units in, and a wake seven units in after a partner-added
  uevent.\<close>

definition brief_spurious_wake :: wake where
  "brief_spurious_wake = \<lparr>after = 2, uevents = []\<rparr>"

definition late_partner_wake :: wake where
  "late_partner_wake =
     \<lparr>after = 7, uevents = [''add@/devices/platform/soc/typec/port0/port0-partner'']\<rparr>"

text \<open>All three roles of a status element are "none" (for the mode, in both the 1.0 and
  the 1.1 field).\<close>

definition roles_none :: "PortStatus \<Rightarrow> bool" where
  "roles_none p \<longleftrightarrow>
     currentPowerRole (status (status_1_1 p)) = PortPowerRole_NONE \<and>
     currentDataRole (status (status_1_1 p)) = PortDataRole_NONE \<and>
     currentMode (status (status_1_1 p)) = PortMode_NONE \<and>
     currentMode_1_1 (status_1_1 p) = PortMode_NONE"

text \<open>The status codes handed to the callback with status pushes.\<close>

fun pushed_status :: "event list \<Rightarrow> Status list" where
  "pushed_status [] = []"
| "pushed_status (NotifyPortStatusChange v st # es) = st # pushed_status es"
| "pushed_status (NotifyPortStatusChange_1_1 v st # es) = st # pushed_status es"
| "pushed_status (NotifyPortStatusChange_1_2 v st # es) = st # pushed_status es"
| "pushed_status (e # es) = pushed_status es"

text \<open>Two ports, no partner, no readable file.\<close>

definition sysfs_unplugged :: world where
  "sysfs_unplugged =
     \<lparr>node_exists = (\<lambda>p. False), write_ok = (\<lambda>p c. True), file_content = (\<lambda>p. None),
      dir_exists = (\<lambda>p. False), typec_entries = Some [(''port0'', True), (''port1'', True)],
      iteration_rank = (\<lambda>k. 0)\<rparr>"

text \<open>One connected port whose \<^verbatim>\<open>port_type\<close> node exists and reads
  \<open>[dual] source sink\<close>: a bracketed token outside the five role names that
  \<^verbatim>\<open>getCurrentRoleHelper\<close> knows.\<close>

definition sysfs_port_type_dual :: world where
  "sysfs_port_type_dual =
     \<lparr>node_exists = (\<lambda>p. p = ''/sys/class/typec/port0/port_type''),
      write_ok = (\<lambda>p c. True),
      file_content = map_of
        [(''/sys/class/typec/port0/power_role'', ''[source] sink'' @ [CHR 0x0A]),
         (''/sys/class/typec/port0/data_role'', ''[host] device'' @ [CHR 0x0A]),
         (''/sys/class/typec/port0-partner/accessory_mode'', ''none'' @ [CHR 0x0A]),
         (''/sys/class/typec/port0/port_type'', ''[dual] source sink'' @ [CHR 0x0A])],
      dir_exists = (\<lambda>p. p = ''/sys/class/typec/port0-partner''),
      typec_entries = Some [(''port0'', True), (''port0-partner'', True)],
      iteration_rank = (\<lambda>k. 0)\<rparr>"

text \<open>A power-supply uevent for the \<open>usb\<close> supply on a device whose moisture file reads
  \<open>1\<close>, with a 1.2 callback registered and the moisture path configured.\<close>

definition sysfs_moisture :: world where
  "sysfs_moisture =
     \<lparr>node_exists = (\<lambda>p. False), write_ok = (\<lambda>p c. True),
      file_content = map_of
        [(''/sys/class/power_supply/usb/moisture_detected'', ''1'' @ [CHR 0x0A])],
      dir_exists = (\<lambda>p. False), typec_entries = Some [(''port0'', True)],
      iteration_rank = (\<lambda>k. 0)\<rparr>"

definition usb_contaminant_aware :: usb where
  "usb_contaminant_aware =
     usb_init\<lparr>mCallback_1_0 := Some CB_1_2,
              mContaminantStatusPath := ''/sys/class/power_supply/usb/moisture_detected''\<rparr>"

definition psy_usb_uevent :: "string list" where
  "psy_usb_uevent =
     [''ACTION=change'', ''SUBSYSTEM=power_supply'', ''POWER_SUPPLY_NAME=usb'',
      ''POWER_SUPPLY_MOISTURE_DETECTED=1'', '''']"

text \<open>What file system calls leave alone: every field of the object, the clock, and the
  events of the log that are not file system calls.\<close>

definition frame :: "usb \<Rightarrow> (bool \<times> bool \<times> string \<times> callback option \<times> string \<times> string \<times> string \<times> nat) \<times> event list" where
  "frame s = ((mPartnerUp s, mContaminantPresence s, mContaminantStatusPath s, mCallback_1_0 s,
     mPowerOpMode s, mMaxPower s, mAttributes s, clock s), filter (\<lambda>e. \<not> is_file_io e) (trace s))"

section \<open>Basic facts\<close>

lemmas role_consts =
  PortPowerRole_NONE_def PortPowerRole_SOURCE_def PortPowerRole_SINK_def
  PortDataRole_NONE_def PortDataRole_HOST_def PortDataRole_DEVICE_def
  PortMode_NONE_def PortMode_UFP_def PortMode_DFP_def PortMode_DRP_def
  PortMode_AUDIO_ACCESSORY_def PortMode_DEBUG_ACCESSORY_def

lemma writes_append: "writes (xs @ ys) = writes xs @ writes ys"
  by (induction xs rule: writes.induct) simp_all

lemma waits_append: "waits (xs @ ys) = waits xs @ waits ys"
  by (induction xs rule: waits.induct) simp_all

lemma stores_append: "stores (xs @ ys) = stores xs @ stores ys"
  by (induction xs rule: stores.induct) simp_all

lemma results_append:
  "role_switch_results (xs @ ys) = role_switch_results xs @ role_switch_results ys"
  by (induction xs rule: role_switch_results.induct) simp_all

lemma pushes_append: "status_pushes (xs @ ys) = status_pushes xs @ status_pushes ys"
  by (induction xs rule: status_pushes.induct) simp_all

lemmas proj_append =
  writes_append waits_append stores_append results_append pushes_append

lemma proj_waits:
  "writes (map CondTimedWait ds) = []"
  "stores (map CondTimedWait ds) = []"
  "role_switch_results (map CondTimedWait ds) = []"
  "status_pushes (map CondTimedWait ds) = []"
  "filter is_file_io (map CondTimedWait ds) = []"
  "waits (map CondTimedWait ds) = ds"
  by (induction ds) simp_all

subsection \<open>Path resolution\<close>

lemma arn_fst: "fst (appendRoleNodeHelper w pn t s) = role_node w pn t"
  by (simp add: role_node_def appendRoleNodeHelper_def Let_def split: PortRoleType.splits)

lemma arn_snd:
  "snd (appendRoleNodeHelper w pn t s) =
     (if t = MODE \<and> \<not> (pn = ''..'' \<or> CHR ''/'' \<in> set pn)
      then emit (Access (''/sys/class/typec/'' @ pn @ ''/port_type'')) s else s)"
  by (simp add: appendRoleNodeHelper_def Let_def split: PortRoleType.splits)

lemma arn_invalid:
  "pn = ''..'' \<or> CHR ''/'' \<in> set pn \<Longrightarrow> appendRoleNodeHelper w pn t s = ('''', s)"
  by (simp add: appendRoleNodeHelper_def)

lemma role_node_nonempty:
  "role_node w pn t \<noteq> '''' \<longleftrightarrow> \<not> (pn = ''..'' \<or> CHR ''/'' \<in> set pn) \<and> t \<noteq> OTHER_TYPE"
  by (simp add: role_node_def appendRoleNodeHelper_def Let_def split: PortRoleType.splits)

subsection \<open>File system calls change nothing but the log\<close>

lemma stores_filter: "stores (filter (\<lambda>e. \<not> is_file_io e) es) = stores es"
  by (induction es rule: stores.induct) simp_all
lemma waits_filter: "waits (filter (\<lambda>e. \<not> is_file_io e) es) = waits es"
  by (induction es rule: waits.induct) simp_all
lemma results_filter: "role_switch_results (filter (\<lambda>e. \<not> is_file_io e) es) = role_switch_results es"
  by (induction es rule: role_switch_results.induct) simp_all
lemma pushes_filter: "status_pushes (filter (\<lambda>e. \<not> is_file_io e) es) = status_pushes es"
  by (induction es rule: status_pushes.induct) simp_all

lemma frame_eqD:
  assumes "frame s' = frame s"
  shows "mPartnerUp s' = mPartnerUp s" "mContaminantPresence s' = mContaminantPresence s"
    "mContaminantStatusPath s' = mContaminantStatusPath s" "mCallback_1_0 s' = mCallback_1_0 s"
    "mPowerOpMode s' = mPowerOpMode s" "mMaxPower s' = mMaxPower s" "mAttributes s' = mAttributes s"
    "clock s' = clock s"
    "stores (trace s') = stores (trace s)" "waits (trace s') = waits (trace s)"
    "role_switch_results (trace s') = role_switch_results (trace s)"
    "status_pushes (trace s') = status_pushes (trace s)"
proof -
  from assms have f: "filter (\<lambda>e. \<not> is_file_io e) (trace s') = filter (\<lambda>e. \<not> is_file_io e) (trace s)"
    by (simp add: frame_def)
  show "stores (trace s') = stores (trace s)" using arg_cong[OF f, of stores] by (simp add: stores_filter)
  show "waits (trace s') = waits (trace s)" using arg_cong[OF f, of waits] by (simp add: waits_filter)
  show "role_switch_results (trace s') = role_switch_results (trace s)"
    using arg_cong[OF f, of role_switch_results] by (simp add: results_filter)
  show "status_pushes (trace s') = status_pushes (trace s)"
    using arg_cong[OF f, of status_pushes] by (simp add: pushes_filter)
qed (use assms in \<open>simp_all add: frame_def\<close>)

lemma frame_emit_io: "is_file_io e \<Longrightarrow> frame (emit e s) = frame s"
  by (simp add: frame_def emit_def)

lemma frame_Read: "frame (snd (ReadFileToString w p s)) = frame s"
  by (simp add: ReadFileToString_def frame_emit_io)
lemma frame_Write: "frame (snd (WriteStringToFile w c p s)) = frame s"
  by (simp add: WriteStringToFile_def frame_emit_io)
lemma frame_arn: "frame (snd (appendRoleNodeHelper w pn t s)) = frame s"
  by (simp add: arn_snd frame_emit_io)
lemma frame_switchToDrp: "frame (switchToDrp w pn s) = frame s"
  by (simp add: switchToDrp_def split_beta frame_Write frame_arn)
lemma frame_acc: "frame (snd (getAccessoryConnected w pn s)) = frame s"
  by (simp add: getAccessoryConnected_def split_beta Let_def frame_Read split: option.splits)
lemma frame_gcr: "frame (snd (getCurrentRoleHelper w pn c t cur s)) = frame s"
  by (simp add: getCurrentRoleHelper_def split_beta Let_def frame_Read frame_acc frame_arn split: option.splits)
lemma frame_csr: "frame (snd (canSwitchRoleHelper w pn s)) = frame s"
  by (simp add: canSwitchRoleHelper_def split_beta Let_def frame_Read split: option.splits)
lemma frame_pse: "frame (snd (port_status_extended w cp pn p s)) = frame s"
  by (simp add: port_status_extended_def split_beta Let_def frame_Read split: option.splits)
lemma frame_psb: "frame (snd (port_status_body w v cp pn c p s)) = frame s"
  by (simp add: port_status_body_def split_beta Let_def frame_gcr frame_csr frame_pse)
lemma frame_psl: "frame (snd (port_status_loop w v cp ns i ps s)) = frame s"
  by (induction ns arbitrary: i ps s) (simp_all add: split_beta Let_def frame_psb)
lemma frame_names: "frame (snd (getTypeCPortNamesHelper w s)) = frame s"
  by (simp add: getTypeCPortNamesHelper_def Let_def frame_emit_io split: option.splits)
lemma frame_gps: "frame (snd (getPortStatusHelper w v cp s)) = frame s"
  by (simp add: getPortStatusHelper_def split_beta Let_def frame_psl frame_names)
lemma frame_drp: "frame (drp_disconnected w ps s) = frame s"
  by (induction ps arbitrary: s) (simp_all add: Let_def frame_switchToDrp frame_emit_io)

lemmas switchToDrp_frame = frame_eqD[OF frame_switchToDrp]
lemmas getPortStatusHelper_frame = frame_eqD[OF frame_gps]
lemmas drp_disconnected_frame = frame_eqD[OF frame_drp]

subsection \<open>The wait loop\<close>

lemma wait_again_trace:
  "\<exists>ds. trace (snd (wait_again tmo ks s)) = trace s @ map CondTimedWait ds \<and> ds \<noteq> []"
proof (induction tmo ks s rule: wait_again.induct)
  case (1 tmo s)
  show ?case by (intro exI[of _ "[clock s + tmo]"]) (simp add: Let_def emit_def)
next
  case (2 tmo k ks s)
  show ?case
  proof (cases "tmo \<le> after k \<or> mPartnerUp s \<or> (\<exists>m \<in> set (uevents k). partner_added m)")
    case True
    then show ?thesis
      by (intro exI[of _ "[clock s + tmo]"]) (auto simp add: Let_def emit_def)
  next
    case False
    let ?s2 = "(emit (CondTimedWait (clock s + tmo)) s)
                 \<lparr>mPartnerUp := mPartnerUp s \<or> (\<exists>m \<in> set (uevents k). partner_added m),
                  clock := clock s + after k\<rparr>"
    from False have eq: "wait_again tmo (k # ks) s = wait_again tmo ks ?s2"
      by (simp add: Let_def)
    from False "2.IH"[of "clock s" "clock s + tmo" _ ?s2]
    obtain ds where "trace (snd (wait_again tmo ks ?s2)) = trace ?s2 @ map CondTimedWait ds"
      by (auto simp: Let_def)
    then have "trace (snd (wait_again tmo (k # ks) s)) =
        trace s @ map CondTimedWait ((clock s + tmo) # ds)"
      using eq by (simp add: emit_def)
    then show ?thesis by blast
  qed
qed

lemma wait_again_proj:
  "writes (trace (snd (wait_again tmo ks s))) = writes (trace s)"
  "stores (trace (snd (wait_again tmo ks s))) = stores (trace s)"
  "role_switch_results (trace (snd (wait_again tmo ks s))) = role_switch_results (trace s)"
  "status_pushes (trace (snd (wait_again tmo ks s))) = status_pushes (trace s)"
  "filter is_file_io (trace (snd (wait_again tmo ks s))) = filter is_file_io (trace s)"
  using wait_again_trace[of tmo ks s] by (auto simp: proj_append proj_waits)

lemma wait_again_frame:
  "mContaminantPresence (snd (wait_again tmo ks s)) = mContaminantPresence s"
  "mContaminantStatusPath (snd (wait_again tmo ks s)) = mContaminantStatusPath s"
  "mCallback_1_0 (snd (wait_again tmo ks s)) = mCallback_1_0 s"
  "mPowerOpMode (snd (wait_again tmo ks s)) = mPowerOpMode s"
  "mMaxPower (snd (wait_again tmo ks s)) = mMaxPower s"
  "mAttributes (snd (wait_again tmo ks s)) = mAttributes s"
  by (induction tmo ks s rule: wait_again.induct; simp add: Let_def emit_def)+

lemma confirmed_iff:
  "confirmed tmo ks \<longleftrightarrow>
     (\<exists>n < length ks. (\<forall>i \<le> n. after (ks ! i) < tmo) \<and>
        (\<exists>m \<in> set (uevents (ks ! n)). partner_added m))"
  unfolding confirmed_def Bex_def Ball_def by auto

lemma confirmed_Nil: "\<not> confirmed tmo []"
  by (simp add: confirmed_def)

lemma confirmed_Cons:
  "confirmed tmo (k # ks) \<longleftrightarrow>
     after k < tmo \<and> ((\<exists>m \<in> set (uevents k). partner_added m) \<or> confirmed tmo ks)"
  (is "?L \<longleftrightarrow> ?R")
proof
  assume ?L
  then obtain n where n: "n < Suc (length ks)" "\<forall>i \<le> n. after ((k # ks) ! i) < tmo"
      "\<exists>m \<in> set (uevents ((k # ks) ! n)). partner_added m"
    unfolding confirmed_iff by auto
  from n(2) have a: "after k < tmo" by (metis nth_Cons_0 le0)
  show ?R
  proof (cases n)
    case 0
    with n a show ?thesis by simp
  next
    case (Suc n')
    with n have "n' < length ks" "\<exists>m \<in> set (uevents (ks ! n')). partner_added m"
      by simp_all
    moreover have "\<forall>i \<le> n'. after (ks ! i) < tmo"
      using n(2) Suc by (metis Suc_le_mono nth_Cons_Suc)
    ultimately have "confirmed tmo ks" unfolding confirmed_iff by blast
    with a show ?thesis by simp
  qed
next
  assume r: ?R
  then have a: "after k < tmo" by simp
  from r consider "\<exists>m \<in> set (uevents k). partner_added m" | "confirmed tmo ks" by blast
  then show ?L
  proof cases
    case 1
    then show ?thesis unfolding confirmed_iff using a by (intro exI[of _ 0]) simp
  next
    case 2
    then obtain n where n: "n < length ks" "\<forall>i \<le> n. after (ks ! i) < tmo"
        "\<exists>m \<in> set (uevents (ks ! n)). partner_added m"
      unfolding confirmed_iff by auto
    have "\<forall>i \<le> Suc n. after ((k # ks) ! i) < tmo"
    proof (intro allI impI)
      fix i assume "i \<le> Suc n"
      then show "after ((k # ks) ! i) < tmo"
        using a n(2) by (cases i) simp_all
    qed
    with n show ?thesis unfolding confirmed_iff by (intro exI[of _ "Suc n"]) simp
  qed
qed

lemma wait_again_result:
  "fst (wait_again tmo ks s) \<longleftrightarrow>
     (if mPartnerUp s then ks \<noteq> [] \<and> after (hd ks) < tmo else confirmed tmo ks)"
  by (induction tmo ks s rule: wait_again.induct)
     (auto simp add: Let_def emit_def confirmed_Nil confirmed_Cons)

lemma wait_again_flag:
  "mPartnerUp (snd (wait_again tmo ks s)) \<Longrightarrow>
     mPartnerUp s \<or> (\<exists>k \<in> set ks. \<exists>m \<in> set (uevents k). partner_added m)"
  by (induction tmo ks s rule: wait_again.induct)
     (auto simp add: Let_def emit_def split: if_splits)

lemma wait_again_clock:
  "\<not> mPartnerUp s \<Longrightarrow> \<forall>k \<in> set ks. \<forall>m \<in> set (uevents k). \<not> partner_added m \<Longrightarrow>
   clock (snd (wait_again tmo ks s)) =
     clock s + sum_list (map after (takeWhile (\<lambda>k. after k < tmo) ks)) + tmo"
  by (induction tmo ks s rule: wait_again.induct)
     (auto simp add: Let_def emit_def)

subsection \<open>switchMode and switchRole\<close>

lemma switchMode_invalid:
  "c_str pn = ''..'' \<or> CHR ''/'' \<in> set (c_str pn) \<Longrightarrow> switchMode w tmo wakes pn r s = (False, s)"
  by (simp add: switchMode_def arn_invalid)

lemma switchRole_invalid:
  "c_str pn = ''..'' \<or> CHR ''/'' \<in> set (c_str pn) \<Longrightarrow> switchRole w tmo wakes pn r s = s"
  by (simp add: switchRole_def arn_invalid)

lemma switchMode_result:
  "fst (switchMode w tmo wakes pn r s) \<longleftrightarrow>
     role_node w (c_str pn) (type r) \<noteq> '''' \<and>
     write_ok w (role_node w (c_str pn) (type r)) (convertRoletoString r) \<and> confirmed tmo wakes"
  by (simp add: switchMode_def split_beta Let_def WriteStringToFile_def wait_again_result
      emit_def arn_fst)

lemma switchToDrp_writes:
  "writes (trace (switchToDrp w pn s)) = writes (trace s) @ [(role_node w pn MODE, ''dual'')]"
  by (simp add: switchToDrp_def split_beta WriteStringToFile_def emit_def proj_append
      arn_snd arn_fst)

lemma switchMode_writes:
  assumes "role_node w (c_str pn) (type r) \<noteq> ''''"
  shows "writes (trace (snd (switchMode w tmo wakes pn r s))) =
     writes (trace s) @ (role_node w (c_str pn) (type r), convertRoletoString r) #
       (if fst (switchMode w tmo wakes pn r s) then [] else [(role_node w (c_str pn) MODE, ''dual'')])"
  using assms
  by (simp add: switchMode_result)
     (simp add: switchMode_def split_beta Let_def WriteStringToFile_def wait_again_result
      wait_again_proj switchToDrp_writes emit_def proj_append arn_snd arn_fst)

lemma switchMode_write_fails:
  assumes "role_node w (c_str pn) (type r) \<noteq> ''''"
    and "\<not> write_ok w (role_node w (c_str pn) (type r)) (convertRoletoString r)"
  shows "waits (trace (snd (switchMode w tmo wakes pn r s))) = waits (trace s)"
    and "clock (snd (switchMode w tmo wakes pn r s)) = clock s"
  using assms
  by (simp_all add: switchMode_def split_beta Let_def WriteStringToFile_def switchToDrp_frame
      emit_def proj_append arn_snd arn_fst)

lemma sum_takeWhile_bound:
  "sum_list (map after (takeWhile (\<lambda>k. after k < tmo) ks)) \<le> length ks * tmo"
  by (induction ks) auto

lemma switchMode_clock:
  assumes "role_node w (c_str pn) (type r) \<noteq> ''''"
    and "write_ok w (role_node w (c_str pn) (type r)) (convertRoletoString r)"
    and "\<forall>k \<in> set wakes. \<forall>m \<in> set (uevents k). \<not> partner_added m"
  shows "clock (snd (switchMode w tmo wakes pn r s)) =
     clock s + sum_list (map after (takeWhile (\<lambda>k. after k < tmo) wakes)) + tmo"
  using assms
  by (simp add: switchMode_def split_beta Let_def WriteStringToFile_def switchToDrp_frame
      wait_again_clock emit_def arn_snd arn_fst)

lemma not_confirmed:
  "\<forall>k \<in> set ks. \<forall>m \<in> set (uevents k). \<not> partner_added m \<Longrightarrow> \<not> confirmed tmo ks"
  by (auto simp: confirmed_iff)

lemma confirmed_fixed_imp_confirmed:
  assumes "confirmed_fixed tmo ks"
  shows "confirmed tmo ks"
proof -
  from assms obtain n where n: "n < length ks"
      "sum_list (map after (take (Suc n) ks)) < tmo"
      "\<exists>m \<in> set (uevents (ks ! n)). partner_added m"
    unfolding confirmed_fixed_def by fastforce
  have "after (ks ! i) < tmo" if "i \<le> n" for i
  proof -
    have "ks ! i \<in> set (take (Suc n) ks)"
      using that n(1) by (auto simp add: in_set_conv_nth intro!: exI[of _ i])
    then have "after (ks ! i) \<in> set (map after (take (Suc n) ks))" by simp
    then have "after (ks ! i) \<le> sum_list (map after (take (Suc n) ks))"
      by (simp add: member_le_sum_list)
    with n(2) show ?thesis by simp
  qed
  with n(1,3) show ?thesis unfolding confirmed_iff by blast
qed

lemma sum_list_after_zero:
  "sum_list (map after xs) = 0 \<longleftrightarrow> (\<forall>k \<in> set xs. after k = 0)"
  by (induction xs) auto

lemma switchMode_flag:
  assumes "role_node w (c_str pn) (type r) \<noteq> ''''"
    and "mPartnerUp (snd (switchMode w tmo wakes pn r s))"
  shows "\<exists>k \<in> set wakes. \<exists>m \<in> set (uevents k). partner_added m"
proof -
  let ?s4 = "snd (WriteStringToFile w (convertRoletoString r) (role_node w (c_str pn) (type r))
      ((emit (Store_mPartnerUp False)
          (emit (Lock mPartnerLock) (snd (appendRoleNodeHelper w (c_str pn) (type r) s))))
        \<lparr>mPartnerUp := False\<rparr>))"
  have "\<not> mPartnerUp ?s4" by (simp add: WriteStringToFile_def emit_def)
  moreover have "mPartnerUp (snd (wait_again tmo wakes ?s4))"
    using assms
    by (simp add: switchMode_def split_beta Let_def switchToDrp_frame emit_def arn_fst
        WriteStringToFile_def split: if_splits)
  ultimately show ?thesis using wait_again_flag by blast
qed

lemma switchMode_stores:
  assumes "role_node w (c_str pn) (type r) \<noteq> ''''"
  shows "stores (trace (snd (switchMode w tmo wakes pn r s))) = stores (trace s) @ [False]"
  using assms
  by (simp add: switchMode_def split_beta Let_def WriteStringToFile_def switchToDrp_frame
      wait_again_proj emit_def proj_append arn_snd arn_fst)

lemma switchRole_writes:
  assumes "role_node w (c_str pn) (type r) \<noteq> ''''"
  shows "writes (trace (switchRole w tmo wakes pn r s)) =
     writes (trace s) @ (role_node w (c_str pn) (type r), convertRoletoString r) #
       (if type r = MODE \<and> \<not> (write_ok w (role_node w (c_str pn) MODE) (convertRoletoString r) \<and>
                                confirmed tmo wakes)
        then [(role_node w (c_str pn) MODE, ''dual'')] else [])"
proof (cases "type r = MODE")
  case True
  have sm: "writes (trace (snd (switchMode w tmo wakes pn r s'))) =
      writes (trace s') @ (role_node w (c_str pn) MODE, convertRoletoString r) #
        (if write_ok w (role_node w (c_str pn) MODE) (convertRoletoString r) \<and> confirmed tmo wakes
         then [] else [(role_node w (c_str pn) MODE, ''dual'')])" for s'
    using assms True switchMode_writes[of w pn r tmo wakes s']
    by (simp add: switchMode_result)
  show ?thesis
    using assms True
    by (simp add: switchRole_def split_beta Let_def emit_def proj_append arn_snd arn_fst sm)
next
  case False
  then show ?thesis
    using assms
    by (simp add: switchRole_def split_beta Let_def WriteStringToFile_def ReadFileToString_def
        emit_def proj_append arn_snd arn_fst split: option.splits)
qed

lemma switchRole_other_axes_trace:
  assumes "type r = DATA_ROLE \<or> type r = POWER_ROLE" "\<not> (c_str pn = ''..'' \<or> CHR ''/'' \<in> set (c_str pn))"
  shows "trace (switchRole w tmo wakes pn r s) = trace s @
     [Lock mRoleSwitchLock, WriteFile (role_node w (c_str pn) (type r)) (convertRoletoString r)] @
     (if write_ok w (role_node w (c_str pn) (type r)) (convertRoletoString r)
      then [ReadFile (role_node w (c_str pn) (type r))] else []) @
     [Lock mLock] @
     (if mCallback_1_0 s \<noteq> None then [NotifyRoleSwitchStatus pn r
        (if write_ok w (role_node w (c_str pn) (type r)) (convertRoletoString r) \<and>
            (case file_content w (role_node w (c_str pn) (type r)) of
               Some content \<Rightarrow> extractRole content = convertRoletoString r | None \<Rightarrow> False)
         then SUCCESS else ERROR)] else []) @
     [Unlock mLock, Unlock mRoleSwitchLock]"
proof -
  have ne: "role_node w (c_str pn) (type r) \<noteq> ''''" "type r \<noteq> MODE"
    using assms by (auto simp: role_node_nonempty)
  have sn: "snd (appendRoleNodeHelper w (c_str pn) (type r) s) = s"
    using ne by (simp add: arn_snd)
  show ?thesis
    unfolding switchRole_def
    by (cases "file_content w (role_node w (c_str pn) (type r))")
       (simp_all add: split_beta Let_def arn_fst sn ne WriteStringToFile_def ReadFileToString_def emit_def)
qed

lemma switchRole_other_axes_fields:
  assumes "type r \<noteq> MODE"
  shows "clock (switchRole w tmo wakes pn r s) = clock s"
   and "mPartnerUp (switchRole w tmo wakes pn r s) = mPartnerUp s"
  using assms
  by (simp_all add: switchRole_def split_beta Let_def arn_snd WriteStringToFile_def
      ReadFileToString_def emit_def split: option.splits)

lemma queryPortStatus_flag:
  "mPartnerUp (queryPortStatus w s) = mPartnerUp s"
  "stores (trace (queryPortStatus w s)) = stores (trace s)"
  by (simp_all add: queryPortStatus_def Let_def split_beta emit_def proj_append
      getPortStatusHelper_frame split: option.splits callback.splits)

lemma handle_typec_uevent_flag:
  "mPartnerUp (handle_typec_uevent w msg s) = (mPartnerUp s \<or> partner_added msg)"
  by (simp add: handle_typec_uevent_def Let_def split_beta queryPortStatus_flag
      WriteStringToFile_def ReadFileToString_def emit_def split: option.splits)

lemma handle_typec_uevent_stores:
  "stores (trace (handle_typec_uevent w msg s)) =
     stores (trace s) @ (if partner_added msg then [True] else [])"
  by (simp add: handle_typec_uevent_def Let_def split_beta queryPortStatus_flag
      WriteStringToFile_def ReadFileToString_def emit_def proj_append split: option.splits)

lemma switchMode_trace_prefix:
  assumes "role_node w (c_str pn) (type r) \<noteq> ''''"
  shows "\<exists>rest. trace (snd (switchMode w tmo wakes pn r s)) =
      trace (snd (appendRoleNodeHelper w (c_str pn) (type r) s)) @
      [Lock mPartnerLock, Store_mPartnerUp False,
       WriteFile (role_node w (c_str pn) (type r)) (convertRoletoString r)] @ rest @
      Unlock mPartnerLock # (if fst (switchMode w tmo wakes pn r s) then []
         else [Access (''/sys/class/typec/'' @ c_str pn @ ''/port_type''), WriteFile (role_node w (c_str pn) MODE) ''dual''])
      \<and> (\<forall>e \<in> set rest. \<exists>d. e = CondTimedWait d)"
proof -
  let ?s3 = "(emit (Store_mPartnerUp False) (emit (Lock mPartnerLock)
               (snd (appendRoleNodeHelper w (c_str pn) (type r) s))))\<lparr>mPartnerUp := False\<rparr>"
  let ?s4 = "emit (WriteFile (role_node w (c_str pn) (type r)) (convertRoletoString r)) ?s3"
  have valid: "\<not> (c_str pn = ''..'' \<or> CHR ''/'' \<in> set (c_str pn))"
    using assms by (simp add: role_node_nonempty)
  show ?thesis
  proof (cases "write_ok w (role_node w (c_str pn) (type r)) (convertRoletoString r)")
    case True
    obtain ds where ds: "trace (snd (wait_again tmo wakes ?s4)) = trace ?s4 @ map CondTimedWait ds"
      using wait_again_trace by blast
    show ?thesis
      using assms True valid ds
      by (intro exI[of _ "map CondTimedWait ds"])
         (auto simp add: switchMode_def split_beta Let_def WriteStringToFile_def arn_fst emit_def
            switchToDrp_def arn_snd)
  next
    case False
    show ?thesis
      using assms False valid
      by (intro exI[of _ "[]"])
         (simp add: switchMode_def split_beta Let_def WriteStringToFile_def arn_fst emit_def
            switchToDrp_def arn_snd)
  qed
qed

lemma switchRole_stores:
  "stores (trace (switchRole w tmo wakes pn r s)) =
     stores (trace s) @ (if type r = MODE \<and> \<not> (c_str pn = ''..'' \<or> CHR ''/'' \<in> set (c_str pn)) then [False] else [])"
proof (cases "role_node w (c_str pn) (type r) = ''''")
  case True
  then have "(c_str pn = ''..'' \<or> CHR ''/'' \<in> set (c_str pn)) \<or> type r = OTHER_TYPE"
    using role_node_nonempty[of w "c_str pn" "type r"] by blast
  with True show ?thesis
    by (auto simp add: switchRole_def split_beta arn_fst arn_snd)
next
  case False
  show ?thesis
  proof (cases "type r = MODE")
    case True
    have "stores (trace (snd (switchMode w tmo wakes pn r s'))) = stores (trace s') @ [False]" for s'
      using switchMode_stores[OF False] .
    then show ?thesis
      using False True
      by (simp add: switchRole_def split_beta Let_def emit_def proj_append arn_snd arn_fst
          role_node_nonempty)
  next
    case F: False
    then show ?thesis
      using False
      by (simp add: switchRole_def split_beta Let_def emit_def proj_append arn_snd arn_fst
          WriteStringToFile_def ReadFileToString_def split: option.splits)
  qed
qed

lemma convertRoletoString_none:
  assumes "\<not> (type r = POWER_ROLE \<and> (role r = PortPowerRole_SOURCE \<or> role r = PortPowerRole_SINK))"
    and "\<not> (type r = DATA_ROLE \<and> (role r = PortDataRole_HOST \<or> role r = PortDataRole_DEVICE))"
    and "\<not> (type r = MODE \<and> (role r = PortMode_UFP \<or> role r = PortMode_DFP))"
  shows "convertRoletoString r = ''none''"
  using assms by (auto simp: convertRoletoString_def)

subsection \<open>The status snapshot\<close>

lemma gcr_disconnected:
  "t \<noteq> OTHER_TYPE \<Longrightarrow>
   getCurrentRoleHelper w pn False t cur s =
     ((SUCCESS, if t = POWER_ROLE then PortPowerRole_NONE
                else if t = DATA_ROLE then PortDataRole_NONE else PortMode_NONE), s)"
  by (simp add: getCurrentRoleHelper_def)

lemma upd_status_simps:
  "status (status_1_1 (upd_status f p)) = f (status (status_1_1 p))"
  "currentMode_1_1 (status_1_1 (upd_status f p)) = currentMode_1_1 (status_1_1 p)"
  "supportedModes_1_1 (status_1_1 (upd_status f p)) = supportedModes_1_1 (status_1_1 p)"
  "status (status_1_1 (upd_status_1_1 g p)) = status (g (status_1_1 p))"
  "currentMode_1_1 (status_1_1 (upd_status_1_1 g p)) = currentMode_1_1 (g (status_1_1 p))"
  by (simp_all add: upd_status_def upd_status_1_1_def)

lemma pse_roles:
  "currentPowerRole (status (status_1_1 (fst (port_status_extended w cp pn p s)))) =
     currentPowerRole (status (status_1_1 p))"
  "currentDataRole (status (status_1_1 (fst (port_status_extended w cp pn p s)))) =
     currentDataRole (status (status_1_1 p))"
  "currentMode (status (status_1_1 (fst (port_status_extended w cp pn p s)))) = PortMode_NONE"
  "currentMode_1_1 (status_1_1 (fst (port_status_extended w cp pn p s))) =
     currentMode_1_1 (status_1_1 p)"
  "portName (status (status_1_1 (fst (port_status_extended w cp pn p s)))) =
     portName (status (status_1_1 p))"
  by (simp_all add: port_status_extended_def Let_def split_beta upd_status_simps
      split: option.splits)

lemma pse_io:
  "filter is_file_io (trace (snd (port_status_extended w cp pn p s))) =
     filter is_file_io (trace s) @ (if pn = ''port0'' \<and> cp \<noteq> '''' then [ReadFile cp] else [])"
  by (simp add: port_status_extended_def Let_def split_beta ReadFileToString_def emit_def
      split: option.splits)

lemma psb_disconnected:
  "fst (fst (port_status_body w V1_0 cp pn False p s))"
  "roles_none (snd (fst (port_status_body w V1_0 cp pn False p s)))"
  "portName (status (status_1_1 (snd (fst (port_status_body w V1_0 cp pn False p s))))) = pn"
  "filter is_file_io (trace (snd (port_status_body w V1_0 cp pn False p s))) =
     filter is_file_io (trace s) @
     (if \<not> V1_0 \<and> pn = ''port0'' \<and> cp \<noteq> '''' then [ReadFile cp] else [])"
  by (simp_all add: port_status_body_def gcr_disconnected Let_def split_beta roles_none_def
      pse_roles pse_io upd_status_simps)

lemma psl_length: "length (snd (fst (port_status_loop w V1_0 cp ns i v s))) = length v"
  by (induction ns arbitrary: i v s) (simp_all add: split_beta Let_def)

lemma psl_below: "k < i \<Longrightarrow> snd (fst (port_status_loop w V1_0 cp ns i v s)) ! k = v ! k"
  by (induction ns arbitrary: i v s) (simp_all add: split_beta Let_def)

lemma psl_disconnected:
  assumes "i + length ns \<le> length v"
    and "\<forall>j. i \<le> j \<and> j < length v \<longrightarrow> roles_none (v ! j)"
    and "j < length ns" and "\<not> snd (ns ! j)"
  shows "roles_none (snd (fst (port_status_loop w V1_0 cp ns i v s)) ! (i + j))"
  using assms
proof (induction ns arbitrary: i v s j)
  case Nil
  then show ?case by simp
next
  case (Cons n ns)
  let ?b = "port_status_body w V1_0 cp (fst n) (snd n) (v ! i) s"
  let ?v = "v[i := snd (fst ?b)]"
  show ?case
  proof (cases "fst (fst ?b)")
    case False
    then have eq: "snd (fst (port_status_loop w V1_0 cp (n # ns) i v s)) = ?v"
      by (simp add: split_beta Let_def)
    show ?thesis
    proof (cases j)
      case 0
      with Cons.prems have "snd n = False" by simp
      then have "fst (fst ?b)" using psb_disconnected(1) by simp
      with False show ?thesis by simp
    next
      case (Suc j')
      with Cons.prems have "roles_none (v ! (i + j))" by simp
      with Suc Cons.prems show ?thesis unfolding eq by simp
    qed
  next
    case True
    then have eq: "snd (fst (port_status_loop w V1_0 cp (n # ns) i v s)) =
        snd (fst (port_status_loop w V1_0 cp ns (Suc i) ?v (snd ?b)))"
      by (simp add: split_beta Let_def)
    show ?thesis
    proof (cases j)
      case 0
      with Cons.prems have d: "snd n = False" by simp
      have "snd (fst (port_status_loop w V1_0 cp ns (Suc i) ?v (snd ?b))) ! i = ?v ! i"
        by (rule psl_below) simp
      moreover have "roles_none (?v ! i)"
        using Cons.prems(1) d psb_disconnected(2)[of w V1_0 cp "fst n" "v ! i" s] by simp
      ultimately show ?thesis using 0 unfolding eq by simp
    next
      case (Suc j')
      have "roles_none (snd (fst (port_status_loop w V1_0 cp ns (Suc i) ?v (snd ?b))) ! (Suc i + j'))"
      proof (rule Cons.IH)
        show "Suc i + length ns \<le> length ?v" using Cons.prems(1) by simp
        show "\<forall>j. Suc i \<le> j \<and> j < length ?v \<longrightarrow> roles_none (?v ! j)"
          using Cons.prems(2) by simp
        show "j' < length ns" using Cons.prems(3) Suc by simp
        show "\<not> snd (ns ! j')" using Cons.prems(4) Suc by simp
      qed
      then show ?thesis using Suc unfolding eq by simp
    qed
  qed
qed

lemma roles_none_init: "roles_none PortStatus_init"
  by (simp add: roles_none_def PortStatus_init_def PortStatus_1_1_init_def PortStatus_1_0_init_def
      role_consts)

lemma gps_disconnected:
  assumes "j < length (fst (getTypeCPortNamesHelper w s))"
    and "\<not> snd (fst (getTypeCPortNamesHelper w s) ! j)"
  shows "roles_none (snd (fst (getPortStatusHelper w V1_0 cp s)) ! j)"
proof -
  let ?names = "fst (getTypeCPortNamesHelper w s)"
  have ne: "?names \<noteq> []" using assms(1) by auto
  have "roles_none (snd (fst (port_status_loop w V1_0 cp ?names 0
            (replicate (length ?names) PortStatus_init) (snd (getTypeCPortNamesHelper w s)))) ! (0 + j))"
    by (rule psl_disconnected) (use assms in \<open>simp_all add: roles_none_init\<close>)
  then show ?thesis using ne by (simp add: getPortStatusHelper_def split_beta Let_def)
qed


lemma psb_portName:
  "portName (status (status_1_1 (snd (fst (port_status_body w V1_0 cp pn c p s))))) = pn"
  by (simp add: port_status_body_def Let_def split_beta pse_roles upd_status_simps)

lemma psl_names:
  assumes "i + length ns \<le> length v"
    and "fst (fst (port_status_loop w V1_0 cp ns i v s)) = SUCCESS"
    and "j < length ns"
  shows "portName (status (status_1_1 (snd (fst (port_status_loop w V1_0 cp ns i v s)) ! (i + j))))
           = fst (ns ! j)"
  using assms
proof (induction ns arbitrary: i v s j)
  case Nil
  then show ?case by simp
next
  case (Cons n ns)
  let ?b = "port_status_body w V1_0 cp (fst n) (snd n) (v ! i) s"
  let ?v = "v[i := snd (fst ?b)]"
  have ok: "fst (fst ?b)"
    using Cons.prems(2) by (simp add: split_beta Let_def split: if_splits)
  then have eq: "port_status_loop w V1_0 cp (n # ns) i v s =
        port_status_loop w V1_0 cp ns (Suc i) ?v (snd ?b)"
    by (simp add: split_beta Let_def)
  show ?case
  proof (cases j)
    case 0
    have "snd (fst (port_status_loop w V1_0 cp ns (Suc i) ?v (snd ?b))) ! i = ?v ! i"
      by (rule psl_below) simp
    then show ?thesis
      using 0 Cons.prems(1) unfolding eq by (simp add: psb_portName)
  next
    case (Suc j')
    have "portName (status (status_1_1
            (snd (fst (port_status_loop w V1_0 cp ns (Suc i) ?v (snd ?b))) ! (Suc i + j'))))
          = fst (ns ! j')"
    proof (rule Cons.IH)
      show "Suc i + length ns \<le> length ?v" using Cons.prems(1) by simp
      show "fst (fst (port_status_loop w V1_0 cp ns (Suc i) ?v (snd ?b))) = SUCCESS"
        using Cons.prems(2) unfolding eq .
      show "j' < length ns" using Cons.prems(3) Suc by simp
    qed
    then show ?thesis using Suc unfolding eq by simp
  qed
qed

lemma gps_names:
  assumes "fst (fst (getPortStatusHelper w V1_0 cp s)) = SUCCESS"
    and "j < length (fst (getTypeCPortNamesHelper w s))"
  shows "portName (status (status_1_1 (snd (fst (getPortStatusHelper w V1_0 cp s)) ! j)))
           = fst (fst (getTypeCPortNamesHelper w s) ! j)"
proof -
  let ?names = "fst (getTypeCPortNamesHelper w s)"
  let ?l = "port_status_loop w V1_0 cp ?names 0
            (replicate (length ?names) PortStatus_init) (snd (getTypeCPortNamesHelper w s))"
  have ne: "?names \<noteq> []" using assms(2) by auto
  then have eq: "getPortStatusHelper w V1_0 cp s = ?l"
    by (simp add: getPortStatusHelper_def split_beta Let_def)
  have "portName (status (status_1_1 (snd (fst ?l) ! (0 + j)))) = fst (?names ! j)"
    by (rule psl_names) (use assms eq in simp_all)
  then show ?thesis unfolding eq by simp
qed

lemma psl_status:
  "fst (fst (port_status_loop w V1_0 cp ns i v s)) = SUCCESS \<or>
   fst (fst (port_status_loop w V1_0 cp ns i v s)) = ERROR"
  by (induction ns arbitrary: i v s) (simp_all add: split_beta Let_def)

lemma getPortStatusHelper_status:
  "fst (fst (getPortStatusHelper w V1_0 cp s)) = SUCCESS \<or>
   fst (fst (getPortStatusHelper w V1_0 cp s)) = ERROR"
  using psl_status by (simp add: getPortStatusHelper_def split_beta Let_def)

subsection \<open>The power-supply handler\<close>

lemma handle_psy_no_reading:
  assumes "mCallback_1_0 s \<noteq> Some CB_1_2 \<or> \<not> psy_name_is_usb msg \<or>
           mContaminantStatusPath s = '''' \<or> file_content w (mContaminantStatusPath s) = None"
  shows "status_pushes (trace (handle_psy_uevent w busy msg s)) = status_pushes (trace s)"
    and "mContaminantPresence (handle_psy_uevent w busy msg s) = mContaminantPresence s"
  using assms
  by (auto simp add: handle_psy_uevent_def ReadFileToString_def emit_def proj_append)

lemma handle_psy_reading:
  assumes "mCallback_1_0 s = Some CB_1_2" and "psy_name_is_usb msg"
    and "mContaminantStatusPath s \<noteq> ''''"
    and "file_content w (mContaminantStatusPath s) = Some c"
  shows "first_char_is (CHR ''1'') c \<noteq> mContaminantPresence s \<Longrightarrow>
           \<exists>v st. status_pushes (trace (handle_psy_uevent w busy msg s)) =
                    status_pushes (trace s) @ [NotifyPortStatusChange_1_2 v st]"
    and "first_char_is (CHR ''1'') c = mContaminantPresence s \<Longrightarrow>
           status_pushes (trace (handle_psy_uevent w busy msg s)) = status_pushes (trace s)"
    and "mContaminantPresence (handle_psy_uevent w busy msg s) = first_char_is (CHR ''1'') c"
    and "mCallback_1_0 (handle_psy_uevent w busy msg s) = mCallback_1_0 s"
    and "mContaminantStatusPath (handle_psy_uevent w busy msg s) = mContaminantStatusPath s"
  using assms
  by (auto simp add: handle_psy_uevent_def ReadFileToString_def emit_def proj_append Let_def
      split_beta getPortStatusHelper_frame drp_disconnected_frame)

subsection \<open>Lock discipline of switchRole\<close>

text \<open>
  Every attempt that gets past path resolution takes \<^verbatim>\<open>mRoleSwitchLock\<close> first and releases
  it last; everything in between (the role write, the read-back or the timed wait, the
  fallback write) happens with that lock held and touches neither \<^verbatim>\<open>mRoleSwitchLock\<close> nor
  \<^verbatim>\<open>mLock\<close>; the callback is notified between taking and releasing \<^verbatim>\<open>mLock\<close>. Only the
  \<^verbatim>\<open>access\<close> probe of path resolution precedes the lock.
\<close>

lemma switchMode_callback:
  "mCallback_1_0 (snd (switchMode w tmo wakes pn r s)) = mCallback_1_0 s"
  by (simp add: switchMode_def split_beta Let_def WriteStringToFile_def switchToDrp_frame
      wait_again_frame emit_def arn_snd)

lemma switchMode_events:
  assumes "role_node w (c_str pn) (type r) \<noteq> ''''"
  shows "\<exists>evs. trace (snd (switchMode w tmo wakes pn r s)) = trace s @ evs \<and>
           (\<forall>e \<in> set evs. e \<noteq> Lock mRoleSwitchLock \<and> e \<noteq> Unlock mRoleSwitchLock \<and>
                            e \<noteq> Lock mLock \<and> e \<noteq> Unlock mLock)"
proof -
  obtain rest where r: "trace (snd (switchMode w tmo wakes pn r s)) =
      trace (snd (appendRoleNodeHelper w (c_str pn) (type r) s)) @
      [Lock mPartnerLock, Store_mPartnerUp False,
       WriteFile (role_node w (c_str pn) (type r)) (convertRoletoString r)] @ rest @
      Unlock mPartnerLock # (if fst (switchMode w tmo wakes pn r s) then []
         else [Access (''/sys/class/typec/'' @ c_str pn @ ''/port_type''), WriteFile (role_node w (c_str pn) MODE) ''dual''])"
    and w: "\<forall>e \<in> set rest. \<exists>d. e = CondTimedWait d"
    using switchMode_trace_prefix[OF assms, of tmo wakes s] by blast
  have "\<exists>pre. trace (snd (appendRoleNodeHelper w (c_str pn) (type r) s)) = trace s @ pre \<and>
          (\<forall>e \<in> set pre. \<exists>p. e = Access p)"
    by (simp add: arn_snd emit_def)
  then obtain pre where p: "trace (snd (appendRoleNodeHelper w (c_str pn) (type r) s)) = trace s @ pre"
    and pa: "\<forall>e \<in> set pre. \<exists>p. e = Access p" by blast
  show ?thesis
    apply (rule exI[of _ "pre @ [Lock mPartnerLock, Store_mPartnerUp False,
       WriteFile (role_node w (c_str pn) (type r)) (convertRoletoString r)] @ rest @
      Unlock mPartnerLock # (if fst (switchMode w tmo wakes pn r s) then []
         else [Access (''/sys/class/typec/'' @ c_str pn @ ''/port_type''), WriteFile (role_node w (c_str pn) MODE) ''dual''])"])
    using r p pa w by auto
qed

lemma switchRole_lock_discipline:
  assumes "role_node w (c_str pn) (type r) \<noteq> ''''"
  shows "\<exists>body st. trace (switchRole w tmo wakes pn r s) =
           trace (snd (appendRoleNodeHelper w (c_str pn) (type r) s)) @
           Lock mRoleSwitchLock # body @
           Lock mLock #
           (if mCallback_1_0 s \<noteq> None then [NotifyRoleSwitchStatus pn r st] else []) @
           [Unlock mLock, Unlock mRoleSwitchLock] \<and>
         (\<forall>e \<in> set body. e \<noteq> Lock mRoleSwitchLock \<and> e \<noteq> Unlock mRoleSwitchLock \<and>
                            e \<noteq> Lock mLock \<and> e \<noteq> Unlock mLock)"
proof (cases "type r = MODE")
  case True
  let ?s2 = "emit (Lock mRoleSwitchLock) (snd (appendRoleNodeHelper w (c_str pn) (type r) s))"
  obtain evs where e: "trace (snd (switchMode w tmo wakes pn r ?s2)) = trace ?s2 @ evs"
    and n: "\<forall>e \<in> set evs. e \<noteq> Lock mRoleSwitchLock \<and> e \<noteq> Unlock mRoleSwitchLock \<and>
                            e \<noteq> Lock mLock \<and> e \<noteq> Unlock mLock"
    using switchMode_events[OF assms, of tmo wakes ?s2] by blast
  show ?thesis
    apply (rule exI[of _ evs])
    apply (rule exI[of _ "if fst (switchMode w tmo wakes pn r ?s2) then SUCCESS else ERROR"])
    using assms True e n
    by (simp add: switchRole_def split_beta Let_def emit_def arn_fst arn_snd switchMode_callback)
next
  case False
  then have t: "type r = DATA_ROLE \<or> type r = POWER_ROLE"
    using assms by (cases "type r") (simp_all add: role_node_nonempty)
  have v: "\<not> (c_str pn = ''..'' \<or> CHR ''/'' \<in> set (c_str pn))"
    using assms by (simp add: role_node_nonempty)
  have sn: "snd (appendRoleNodeHelper w (c_str pn) (type r) s) = s"
    using False by (simp add: arn_snd)
  show ?thesis
    apply (rule exI[of _ "WriteFile (role_node w (c_str pn) (type r)) (convertRoletoString r) #
       (if write_ok w (role_node w (c_str pn) (type r)) (convertRoletoString r)
        then [ReadFile (role_node w (c_str pn) (type r))] else [])"])
    apply (rule exI[of _ "if write_ok w (role_node w (c_str pn) (type r)) (convertRoletoString r) \<and>
            (case file_content w (role_node w (c_str pn) (type r)) of
               Some content \<Rightarrow> extractRole content = convertRoletoString r | None \<Rightarrow> False)
         then SUCCESS else ERROR"])
    by (simp add: switchRole_other_axes_trace[OF t v] sn)
qed

section \<open>Path validation\<close>

text \<open>
  Claim C6, as stated, fails for the entry points: the name \<open>port1\<close>, a zero byte,
  \<open>/x\<close> contains \<open>/\<close>, and \<^verbatim>\<open>appendRoleNodeHelper\<close> rejects it as it stands, but
  \<^verbatim>\<open>switchRole\<close> resolves \<^verbatim>\<open>std::string(portName.c_str())\<close>, which is \<open>port1\<close>: it writes
  and reads back the data role node of \<open>port1\<close> and notifies \<^verbatim>\<open>SUCCESS\<close>.
\<close>

theorem port_name_cut_at_zero_byte_counterexample:
  "CHR ''/'' \<in> set (''port1'' @ [CHR 0x00] @ ''/x'') \<and>
   appendRoleNodeHelper sysfs_accepting (''port1'' @ [CHR 0x00] @ ''/x'') DATA_ROLE usb_init =
     ('''', usb_init) \<and>
   filter is_file_io (trace (switchRole sysfs_accepting 8 [] (''port1'' @ [CHR 0x00] @ ''/x'')
      \<lparr>type = DATA_ROLE, role = PortDataRole_DEVICE\<rparr> (usb_init\<lparr>mCallback_1_0 := Some CB_1_0\<rparr>))) =
     [WriteFile ''/sys/class/typec/port1/data_role'' ''device'',
      ReadFile ''/sys/class/typec/port1/data_role''] \<and>
   role_switch_results (trace (switchRole sysfs_accepting 8 [] (''port1'' @ [CHR 0x00] @ ''/x'')
      \<lparr>type = DATA_ROLE, role = PortDataRole_DEVICE\<rparr> (usb_init\<lparr>mCallback_1_0 := Some CB_1_0\<rparr>))) =
     [SUCCESS]"
  by (simp add: switchRole_def appendRoleNodeHelper_def sysfs_accepting_def usb_init_def Let_def
      WriteStringToFile_def ReadFileToString_def emit_def convertRoletoString_def role_consts
      extractRole_def c_str_def)

text \<open>
  Claim C6, amended. \<^verbatim>\<open>appendRoleNodeHelper\<close> returns the empty path, without touching any
  file, for every name that contains \<open>/\<close> or equals \<open>..\<close>, on every role axis. The
  entry points read the port name as a C string (up to its first zero byte; a name
  without a zero byte is read whole): when that C string contains \<open>/\<close> or equals
  \<open>..\<close>, \<^verbatim>\<open>switchMode\<close> returns false and \<^verbatim>\<open>switchRole\<close> returns, both at once and
  leaving the object and the event log as they found them, so no file is touched and the
  callback is not notified (\<^verbatim>\<open>switchRole\<close> reports nothing, neither success nor failure).
\<close>

theorem invalid_port_name_no_io:
  "(n = ''..'' \<or> CHR ''/'' \<in> set n \<longrightarrow> appendRoleNodeHelper w n t s = ('''', s)) \<and>
   (CHR 0x00 \<notin> set pn \<longrightarrow> c_str pn = pn) \<and>
   (c_str pn = ''..'' \<or> CHR ''/'' \<in> set (c_str pn) \<longrightarrow>
      switchMode w tmo wakes pn r s = (False, s) \<and>
      switchRole w tmo wakes pn r s = s)"
proof -
  have "c_str pn = pn" if "CHR 0x00 \<notin> set pn"
    unfolding c_str_def using that by (intro takeWhile_eq_all_conv[THEN iffD2]) auto
  then show ?thesis
    using arn_invalid[of n w t s] switchMode_invalid[of pn w tmo wakes r s]
      switchRole_invalid[of pn w tmo wakes r s]
    by blast
qed

theorem invalid_port_name_no_io_witness:
  "(''port0/../port1'' = ''..'' \<or> CHR ''/'' \<in> set ''port0/../port1'') \<and>
   c_str ''port0/../port1'' = ''port0/../port1'' \<and>
   appendRoleNodeHelper sysfs_accepting ''port0/../port1'' POWER_ROLE usb_init = ('''', usb_init) \<and>
   switchMode sysfs_accepting 8 [] ''port0/../port1''
     \<lparr>type = MODE, role = PortMode_DFP\<rparr> usb_init = (False, usb_init) \<and>
   switchRole sysfs_accepting 8 [] ''port0/../port1''
     \<lparr>type = MODE, role = PortMode_DFP\<rparr> usb_init = usb_init"
  using invalid_port_name_no_io[of "''port0/../port1''" sysfs_accepting POWER_ROLE usb_init
      "''port0/../port1''" 8 "[]" "\<lparr>type = MODE, role = PortMode_DFP\<rparr>"]
  by simp

section \<open>Role strings\<close>

text \<open>
  Claim C10. \<^verbatim>\<open>convertRoletoString\<close> is total and returns \<open>none\<close> for every (type, role)
  pair outside POWER_ROLE/source|sink, DATA_ROLE/host|device and MODE/UFP|DFP; such a
  request is not rejected by \<^verbatim>\<open>switchRole\<close> or \<^verbatim>\<open>switchMode\<close>: whenever the path resolves,
  the first write either of them performs is the literal \<open>none\<close> to the role node.
\<close>

theorem convertRoletoString_defaults_to_none:
  assumes "\<not> (type r = POWER_ROLE \<and> (role r = PortPowerRole_SOURCE \<or> role r = PortPowerRole_SINK))"
    and "\<not> (type r = DATA_ROLE \<and> (role r = PortDataRole_HOST \<or> role r = PortDataRole_DEVICE))"
    and "\<not> (type r = MODE \<and> (role r = PortMode_UFP \<or> role r = PortMode_DFP))"
  shows "convertRoletoString r = ''none'' \<and>
         (fst (appendRoleNodeHelper w (c_str pn) (type r) s) \<noteq> '''' \<longrightarrow>
            (\<exists>rest. writes (trace (switchRole w tmo wakes pn r s)) =
               writes (trace s) @ (fst (appendRoleNodeHelper w (c_str pn) (type r) s), ''none'') # rest) \<and>
            (\<exists>rest. writes (trace (snd (switchMode w tmo wakes pn r s))) =
               writes (trace s) @ (fst (appendRoleNodeHelper w (c_str pn) (type r) s), ''none'') # rest))"
proof -
  have none: "convertRoletoString r = ''none''"
    using assms by (rule convertRoletoString_none)
  show ?thesis
    using none switchRole_writes[of w pn r tmo wakes s] switchMode_writes[of w pn r tmo wakes s]
    by (simp add: arn_fst)
qed

theorem convertRoletoString_defaults_to_none_witness:
  "convertRoletoString \<lparr>type = POWER_ROLE, role = 7\<rparr> = ''none'' \<and>
   writes (trace (switchRole sysfs_accepting 8 [] ''port0'' \<lparr>type = POWER_ROLE, role = 7\<rparr> usb_init))
     = [(''/sys/class/typec/port0/power_role'', ''none'')]"
  using convertRoletoString_defaults_to_none[of "\<lparr>type = POWER_ROLE, role = 7\<rparr>"
      sysfs_accepting "''port0''" usb_init 8 "[]"]
  by (simp add: role_consts appendRoleNodeHelper_def sysfs_accepting_def usb_init_def
      switchRole_def Let_def WriteStringToFile_def ReadFileToString_def emit_def c_str_def)

section \<open>Mode switch: confirmation, timeout, fallback\<close>

text \<open>
  Claim C3, as stated, fails in its second case: with a timeout of 8, a spurious wake five
  units into the wait and a partner-added uevent seven units after that, no confirmation
  has arrived when the deadline computed at the start of the wait (8) passes, yet
  \<^verbatim>\<open>switchMode\<close> waits on against the new deadline 13, reports success at 12 and performs
  no fallback write.
\<close>

theorem confirmation_after_first_deadline_counterexample:
  "\<not> confirmed_fixed 8 [spurious_wake, late_partner_wake] \<and>
   fst (switchMode sysfs_accepting 8 [spurious_wake, late_partner_wake] ''port0''
          \<lparr>type = MODE, role = PortMode_DFP\<rparr> usb_init) \<and>
   waits (trace (snd (switchMode sysfs_accepting 8 [spurious_wake, late_partner_wake] ''port0''
          \<lparr>type = MODE, role = PortMode_DFP\<rparr> usb_init))) = [8, 13] \<and>
   clock (snd (switchMode sysfs_accepting 8 [spurious_wake, late_partner_wake] ''port0''
          \<lparr>type = MODE, role = PortMode_DFP\<rparr> usb_init)) = 12 \<and>
   writes (trace (snd (switchMode sysfs_accepting 8 [spurious_wake, late_partner_wake] ''port0''
          \<lparr>type = MODE, role = PortMode_DFP\<rparr> usb_init))) =
     [(''/sys/class/typec/port0/data_role'', ''source'')]"
  by (simp add: switchMode_def appendRoleNodeHelper_def sysfs_accepting_def usb_init_def Let_def
      WriteStringToFile_def emit_def convertRoletoString_def role_consts switchToDrp_def
      spurious_wake_def late_partner_wake_def partner_added_def c_str_def confirmed_fixed_def
      atLeastLessThanSuc numeral_2_eq_2)

text \<open>
  Claim C3, amended. For every Mode-axis switch attempt (the port name passes validation,
  so the role write is attempted): if the write succeeds and the partner-added signal
  arrives before the deadline of the timed wait then in progress (\<open>confirmed\<close>; each wake
  that finds the flag unset starts a new wait with a new deadline), which includes every
  signal that arrives before the deadline computed at the start (\<open>confirmed_fixed\<close>),
  \<^verbatim>\<open>switchMode\<close> reports success and the role write is its only write; if the write
  succeeds and a timed wait runs into its deadline without confirmation, it reports
  failure and writes \<open>dual\<close> to the Mode node exactly once after the role write; if the
  role write fails, it does not wait (no timed wait is logged, the clock does not move),
  reports failure and performs the same single fallback write.
\<close>

theorem switchMode_confirm_or_fallback:
  assumes "type r = MODE" and "\<not> (c_str pn = ''..'' \<or> CHR ''/'' \<in> set (c_str pn))"
  shows
    "(write_ok w (fst (appendRoleNodeHelper w (c_str pn) MODE s)) (convertRoletoString r) \<and>
        confirmed tmo wakes \<longrightarrow>
        fst (switchMode w tmo wakes pn r s) \<and>
        writes (trace (snd (switchMode w tmo wakes pn r s))) =
          writes (trace s) @ [(fst (appendRoleNodeHelper w (c_str pn) MODE s), convertRoletoString r)]) \<and>
     (write_ok w (fst (appendRoleNodeHelper w (c_str pn) MODE s)) (convertRoletoString r) \<and>
        \<not> confirmed tmo wakes \<longrightarrow>
        \<not> fst (switchMode w tmo wakes pn r s) \<and>
        writes (trace (snd (switchMode w tmo wakes pn r s))) =
          writes (trace s) @ [(fst (appendRoleNodeHelper w (c_str pn) MODE s), convertRoletoString r),
                              (fst (appendRoleNodeHelper w (c_str pn) MODE s), ''dual'')]) \<and>
     (\<not> write_ok w (fst (appendRoleNodeHelper w (c_str pn) MODE s)) (convertRoletoString r) \<longrightarrow>
        \<not> fst (switchMode w tmo wakes pn r s) \<and>
        waits (trace (snd (switchMode w tmo wakes pn r s))) = waits (trace s) \<and>
        clock (snd (switchMode w tmo wakes pn r s)) = clock s \<and>
        writes (trace (snd (switchMode w tmo wakes pn r s))) =
          writes (trace s) @ [(fst (appendRoleNodeHelper w (c_str pn) MODE s), convertRoletoString r),
                              (fst (appendRoleNodeHelper w (c_str pn) MODE s), ''dual'')]) \<and>
     (confirmed_fixed tmo wakes \<longrightarrow> confirmed tmo wakes)"
proof -
  have ne: "role_node w (c_str pn) (type r) \<noteq> ''''"
    using assms by (simp add: role_node_nonempty)
  show ?thesis
    using assms(1) ne switchMode_writes[OF ne, of tmo wakes s]
      switchMode_write_fails[OF ne, of tmo wakes s] switchMode_result[of w tmo wakes pn r]
      confirmed_fixed_imp_confirmed[of tmo wakes]
    by (auto simp add: arn_fst)
qed

theorem switchMode_confirm_or_fallback_witness:
  "type \<lparr>type = MODE, role = PortMode_DFP\<rparr> = MODE \<and>
   \<not> (c_str ''port0'' = ''..'' \<or> CHR ''/'' \<in> set (c_str ''port0'')) \<and>
   confirmed_fixed 8 [brief_spurious_wake, partner_wake] \<and>
   confirmed 8 [brief_spurious_wake, partner_wake] \<and>
   fst (switchMode sysfs_accepting 8 [brief_spurious_wake, partner_wake] ''port0''
          \<lparr>type = MODE, role = PortMode_DFP\<rparr> usb_init) \<and>
   writes (trace (snd (switchMode sysfs_accepting 8 [brief_spurious_wake, partner_wake] ''port0''
          \<lparr>type = MODE, role = PortMode_DFP\<rparr> usb_init))) =
     [(''/sys/class/typec/port0/data_role'', ''source'')] \<and>
   \<not> confirmed 8 [spurious_wake] \<and>
   writes (trace (snd (switchMode sysfs_accepting 8 [spurious_wake] ''port0''
          \<lparr>type = MODE, role = PortMode_DFP\<rparr> usb_init))) =
     [(''/sys/class/typec/port0/data_role'', ''source''),
      (''/sys/class/typec/port0/data_role'', ''dual'')] \<and>
   clock (snd (switchMode sysfs_refusing 8 [spurious_wake, partner_wake] ''port0''
          \<lparr>type = MODE, role = PortMode_DFP\<rparr> usb_init)) = 0"
  using switchMode_confirm_or_fallback[of "\<lparr>type = MODE, role = PortMode_DFP\<rparr>" "''port0''"
      sysfs_accepting usb_init 8 "[brief_spurious_wake, partner_wake]"]
    switchMode_confirm_or_fallback[of "\<lparr>type = MODE, role = PortMode_DFP\<rparr>" "''port0''"
      sysfs_accepting usb_init 8 "[spurious_wake]"]
    switchMode_confirm_or_fallback[of "\<lparr>type = MODE, role = PortMode_DFP\<rparr>" "''port0''"
      sysfs_refusing usb_init 8 "[spurious_wake, partner_wake]"]
  by (simp add: confirmed_Cons confirmed_Nil partner_wake_def spurious_wake_def
      brief_spurious_wake_def partner_added_def confirmed_fixed_def atLeastLessThanSuc
      numeral_2_eq_2 appendRoleNodeHelper_def sysfs_accepting_def sysfs_refusing_def
      usb_init_def convertRoletoString_def role_consts Let_def c_str_def)

section \<open>Mode switch: spurious wakes and the deadline\<close>

text \<open>
  Claim C1, as stated, fails: with a timeout of 8 and two spurious wakes five clock units
  into their waits, the flag is never set, the deadlines handed to
  \<^verbatim>\<open>pthread_cond_timedwait\<close> are 8, 13 and 18, and \<^verbatim>\<open>switchMode\<close> gives up at 18, which is
  after the deadline computed at the start of the wait.
\<close>

theorem spurious_wakes_postpone_timeout_counterexample:
  "\<not> fst (switchMode sysfs_accepting 8 [spurious_wake, spurious_wake] ''port0''
          \<lparr>type = MODE, role = PortMode_DFP\<rparr> usb_init) \<and>
   waits (trace (snd (switchMode sysfs_accepting 8 [spurious_wake, spurious_wake] ''port0''
          \<lparr>type = MODE, role = PortMode_DFP\<rparr> usb_init))) = [8, 13, 18] \<and>
   clock (snd (switchMode sysfs_accepting 8 [spurious_wake, spurious_wake] ''port0''
          \<lparr>type = MODE, role = PortMode_DFP\<rparr> usb_init)) = 18 \<and>
   \<not> (clock (snd (switchMode sysfs_accepting 8 [spurious_wake, spurious_wake] ''port0''
          \<lparr>type = MODE, role = PortMode_DFP\<rparr> usb_init)) \<le> clock usb_init + 8)"
  by (simp add: switchMode_def appendRoleNodeHelper_def sysfs_accepting_def usb_init_def Let_def
      WriteStringToFile_def emit_def convertRoletoString_def role_consts switchToDrp_def
      spurious_wake_def c_str_def)

text \<open>
  Claim C1, amended. For a Mode-axis switch whose role write succeeds and in which no
  partner-added uevent is ever seen, \<^verbatim>\<open>switchMode\<close> reports failure, and the time spent in
  the timed wait is the time spent before each spurious wake plus one full timeout: each
  wake that finds the flag unset restarts the full timeout from the time of that wake. The
  total is at least the timeout and at most the timeout times one more than the number of
  wakes; it is exactly the timeout when there is no wake, and in general exactly when
  every spurious wake (every wake that leaves its wait before the timeout) comes at once,
  zero clock units into its wait.
\<close>

theorem switchMode_timeout_restarts_per_wake:
  assumes "type r = MODE" and "\<not> (c_str pn = ''..'' \<or> CHR ''/'' \<in> set (c_str pn))"
    and "write_ok w (fst (appendRoleNodeHelper w (c_str pn) MODE s)) (convertRoletoString r)"
    and "\<forall>k \<in> set wakes. \<forall>m \<in> set (uevents k). \<not> partner_added m"
  shows "\<not> fst (switchMode w tmo wakes pn r s) \<and>
     clock (snd (switchMode w tmo wakes pn r s)) =
       clock s + sum_list (map after (takeWhile (\<lambda>k. after k < tmo) wakes)) + tmo \<and>
     clock s + tmo \<le> clock (snd (switchMode w tmo wakes pn r s)) \<and>
     clock (snd (switchMode w tmo wakes pn r s)) \<le> clock s + (length wakes + 1) * tmo \<and>
     (wakes = [] \<longrightarrow> clock (snd (switchMode w tmo wakes pn r s)) = clock s + tmo) \<and>
     (clock (snd (switchMode w tmo wakes pn r s)) = clock s + tmo \<longleftrightarrow>
        (\<forall>k \<in> set (takeWhile (\<lambda>k. after k < tmo) wakes). after k = 0))"
proof -
  have ne: "role_node w (c_str pn) (type r) \<noteq> ''''"
    using assms by (simp add: role_node_nonempty)
  have wr: "write_ok w (role_node w (c_str pn) (type r)) (convertRoletoString r)"
    using assms by (simp add: arn_fst)
  have c: "clock (snd (switchMode w tmo wakes pn r s)) =
       clock s + sum_list (map after (takeWhile (\<lambda>k. after k < tmo) wakes)) + tmo"
    using switchMode_clock[OF ne wr assms(4)] .
  have r: "\<not> fst (switchMode w tmo wakes pn r s)"
    using not_confirmed[OF assms(4)] by (simp add: switchMode_result)
  have z: "clock (snd (switchMode w tmo wakes pn r s)) = clock s + tmo \<longleftrightarrow>
        (\<forall>k \<in> set (takeWhile (\<lambda>k. after k < tmo) wakes). after k = 0)"
    using c sum_list_after_zero[of "takeWhile (\<lambda>k. after k < tmo) wakes"] by simp
  have b: "clock s + tmo \<le> clock (snd (switchMode w tmo wakes pn r s))"
      "clock (snd (switchMode w tmo wakes pn r s)) \<le> clock s + (length wakes + 1) * tmo"
      "wakes = [] \<longrightarrow> clock (snd (switchMode w tmo wakes pn r s)) = clock s + tmo"
    using c sum_takeWhile_bound[of tmo wakes] by auto
  show ?thesis
    using c r b z by blast
qed

theorem switchMode_timeout_restarts_per_wake_witness:
  "type \<lparr>type = MODE, role = PortMode_DFP\<rparr> = MODE \<and>
   \<not> (''port0'' = ''..'' \<or> CHR ''/'' \<in> set ''port0'') \<and>
   write_ok sysfs_accepting (fst (appendRoleNodeHelper sysfs_accepting ''port0'' MODE usb_init))
     (convertRoletoString \<lparr>type = MODE, role = PortMode_DFP\<rparr>) \<and>
   \<not> (\<exists>k \<in> set [spurious_wake, spurious_wake]. \<exists>m \<in> set (uevents k). partner_added m) \<and>
   clock (snd (switchMode sysfs_accepting 8 [spurious_wake, spurious_wake] ''port0''
          \<lparr>type = MODE, role = PortMode_DFP\<rparr> usb_init)) = 18"
  using switchMode_timeout_restarts_per_wake[of "\<lparr>type = MODE, role = PortMode_DFP\<rparr>" "''port0''"
      sysfs_accepting usb_init "[spurious_wake, spurious_wake]" 8]
  by (simp add: sysfs_accepting_def spurious_wake_def usb_init_def c_str_def)

section \<open>Data role switch\<close>

text \<open>
  Claim C2, as stated, fails: switching the data role of \<open>port1\<close> to device on a node
  that accepts the write and reads back \<open>host [device]\<close>, with no partner-added event
  at all, is reported as \<^verbatim>\<open>SUCCESS\<close>, no timed wait is entered, and the clock has not
  advanced by the timeout of 8.
\<close>

theorem data_role_switch_counterexample:
  "role_switch_results (trace (switchRole sysfs_accepting 8 [] ''port1''
      \<lparr>type = DATA_ROLE, role = PortDataRole_DEVICE\<rparr> (usb_init\<lparr>mCallback_1_0 := Some CB_1_0\<rparr>)))
     = [SUCCESS] \<and>
   waits (trace (switchRole sysfs_accepting 8 [] ''port1''
      \<lparr>type = DATA_ROLE, role = PortDataRole_DEVICE\<rparr> (usb_init\<lparr>mCallback_1_0 := Some CB_1_0\<rparr>)))
     = [] \<and>
   clock (switchRole sysfs_accepting 8 [] ''port1''
      \<lparr>type = DATA_ROLE, role = PortDataRole_DEVICE\<rparr> (usb_init\<lparr>mCallback_1_0 := Some CB_1_0\<rparr>))
     \<noteq> clock (usb_init\<lparr>mCallback_1_0 := Some CB_1_0\<rparr>) + 8"
  by (simp add: switchRole_def appendRoleNodeHelper_def sysfs_accepting_def usb_init_def Let_def
      WriteStringToFile_def ReadFileToString_def emit_def convertRoletoString_def role_consts
      extractRole_def c_str_def)

text \<open>
  Claim C2, amended. For a DataRole switch (\<^verbatim>\<open>switchRole\<close> on the DATA_ROLE axis) where the
  sysfs write succeeds, the outcome is decided by reading the node back, whether or not a
  partner-added event arrives: success when the bracketed token read back equals the
  requested role string, failure otherwise. It is reported without any timed wait (the
  clock does not move), and the role write is the only write: no fallback write is
  performed.
\<close>

theorem switchRole_data_role_read_back:
  assumes "type r = DATA_ROLE" and "\<not> (c_str pn = ''..'' \<or> CHR ''/'' \<in> set (c_str pn))"
    and "write_ok w (fst (appendRoleNodeHelper w (c_str pn) DATA_ROLE s)) (convertRoletoString r)"
  shows "trace (switchRole w tmo wakes pn r s) =
      trace s @
      [Lock mRoleSwitchLock,
       WriteFile (fst (appendRoleNodeHelper w (c_str pn) DATA_ROLE s)) (convertRoletoString r),
       ReadFile (fst (appendRoleNodeHelper w (c_str pn) DATA_ROLE s)),
       Lock mLock] @
      (if mCallback_1_0 s \<noteq> None
       then [NotifyRoleSwitchStatus pn r
               (if (case file_content w (fst (appendRoleNodeHelper w (c_str pn) DATA_ROLE s)) of
                      Some content \<Rightarrow> extractRole content = convertRoletoString r
                    | None \<Rightarrow> False)
                then SUCCESS else ERROR)]
       else []) @
      [Unlock mLock, Unlock mRoleSwitchLock] \<and>
    clock (switchRole w tmo wakes pn r s) = clock s \<and>
    waits (trace (switchRole w tmo wakes pn r s)) = waits (trace s) \<and>
    writes (trace (switchRole w tmo wakes pn r s)) =
      writes (trace s) @ [(fst (appendRoleNodeHelper w (c_str pn) DATA_ROLE s), convertRoletoString r)]"
proof -
  have t: "type r = DATA_ROLE \<or> type r = POWER_ROLE" "type r \<noteq> MODE"
    using assms(1) by simp_all
  have wr: "write_ok w (role_node w (c_str pn) (type r)) (convertRoletoString r)"
    using assms by (simp add: arn_fst)
  note tr = switchRole_other_axes_trace[OF t(1) assms(2), of w tmo wakes s]
  have "waits (trace (switchRole w tmo wakes pn r s)) = waits (trace s)"
    by (simp add: tr proj_append)
  moreover have "writes (trace (switchRole w tmo wakes pn r s)) =
      writes (trace s) @ [(role_node w (c_str pn) (type r), convertRoletoString r)]"
    by (simp add: tr proj_append)
  ultimately show ?thesis
    using tr wr assms(1) switchRole_other_axes_fields(1)[OF t(2), of w tmo wakes pn s]
    by (simp add: arn_fst)
qed

theorem switchRole_data_role_read_back_witness:
  "type \<lparr>type = DATA_ROLE, role = PortDataRole_DEVICE\<rparr> = DATA_ROLE \<and>
   \<not> (''port1'' = ''..'' \<or> CHR ''/'' \<in> set ''port1'') \<and>
   write_ok sysfs_accepting (fst (appendRoleNodeHelper sysfs_accepting ''port1'' DATA_ROLE usb_init))
     (convertRoletoString \<lparr>type = DATA_ROLE, role = PortDataRole_DEVICE\<rparr>) \<and>
   clock (switchRole sysfs_accepting 8 [] ''port1''
      \<lparr>type = DATA_ROLE, role = PortDataRole_DEVICE\<rparr> usb_init) = 0 \<and>
   writes (trace (switchRole sysfs_accepting 8 [] ''port1''
      \<lparr>type = DATA_ROLE, role = PortDataRole_DEVICE\<rparr> usb_init)) =
     [(''/sys/class/typec/port1/data_role'', ''device'')]"
  using switchRole_data_role_read_back[of "\<lparr>type = DATA_ROLE, role = PortDataRole_DEVICE\<rparr>"
      "''port1''" sysfs_accepting usb_init 8 "[]"]
  by (simp add: sysfs_accepting_def usb_init_def appendRoleNodeHelper_def convertRoletoString_def
      role_consts c_str_def)

section \<open>The partner-observed flag\<close>

text \<open>
  Claim C4, as stated, fails for a switch attempt on the DATA_ROLE axis: the attempt writes
  the role, never assigns \<^verbatim>\<open>mPartnerUp\<close>, and a flag that was set before the attempt is
  still set after it.
\<close>

theorem data_role_switch_keeps_partner_flag_counterexample:
  "mPartnerUp (switchRole sysfs_accepting 8 [] ''port1''
      \<lparr>type = DATA_ROLE, role = PortDataRole_DEVICE\<rparr> (usb_init\<lparr>mPartnerUp := True\<rparr>)) \<and>
   stores (trace (switchRole sysfs_accepting 8 [] ''port1''
      \<lparr>type = DATA_ROLE, role = PortDataRole_DEVICE\<rparr> (usb_init\<lparr>mPartnerUp := True\<rparr>))) = [] \<and>
   writes (trace (switchRole sysfs_accepting 8 [] ''port1''
      \<lparr>type = DATA_ROLE, role = PortDataRole_DEVICE\<rparr> (usb_init\<lparr>mPartnerUp := True\<rparr>))) =
     [(''/sys/class/typec/port1/data_role'', ''device'')]"
  by (simp add: switchRole_def appendRoleNodeHelper_def sysfs_accepting_def usb_init_def Let_def
      WriteStringToFile_def ReadFileToString_def emit_def convertRoletoString_def role_consts
      extractRole_def c_str_def)

text \<open>
  Claim C4, amended. At the start of every Mode-axis switch attempt (\<^verbatim>\<open>switchMode\<close> with a
  path that resolves) the flag \<^verbatim>\<open>mPartnerUp\<close> is reset to false right after the partner
  lock is taken and before the role is written; that is the only assignment the
  coordinator makes, on any axis: \<^verbatim>\<open>switchRole\<close> assigns false once on a Mode-axis attempt
  and nothing otherwise, and on the other axes leaves the flag as it was. If the flag is
  set when \<^verbatim>\<open>switchMode\<close> returns, the monitor saw a partner-added uevent during the wait.
  \<^verbatim>\<open>handle_typec_uevent\<close> sets the flag exactly when the uevent is a partner-added one.
\<close>

theorem partner_flag_reset_on_mode_switch_only:
  shows
    "(fst (appendRoleNodeHelper w (c_str pn) (type r) s) \<noteq> '''' \<longrightarrow>
        (\<exists>rest. trace (snd (switchMode w tmo wakes pn r s)) =
           trace (snd (appendRoleNodeHelper w (c_str pn) (type r) s)) @
           [Lock mPartnerLock, Store_mPartnerUp False,
            WriteFile (fst (appendRoleNodeHelper w (c_str pn) (type r) s)) (convertRoletoString r)] @ rest) \<and>
        stores (trace (snd (switchMode w tmo wakes pn r s))) = stores (trace s) @ [False] \<and>
        (mPartnerUp (snd (switchMode w tmo wakes pn r s)) \<longrightarrow>
           (\<exists>k \<in> set wakes. \<exists>m \<in> set (uevents k). partner_added m))) \<and>
     stores (trace (switchRole w tmo wakes pn r s)) =
       stores (trace s) @
       (if type r = MODE \<and> \<not> (c_str pn = ''..'' \<or> CHR ''/'' \<in> set (c_str pn)) then [False] else []) \<and>
     (type r \<noteq> MODE \<longrightarrow> mPartnerUp (switchRole w tmo wakes pn r s) = mPartnerUp s) \<and>
     mPartnerUp (handle_typec_uevent w msg s) = (mPartnerUp s \<or> partner_added msg) \<and>
     stores (trace (handle_typec_uevent w msg s)) =
       stores (trace s) @ (if partner_added msg then [True] else [])"
proof -
  have a: "\<exists>rest. trace (snd (switchMode w tmo wakes pn r s)) =
           trace (snd (appendRoleNodeHelper w (c_str pn) (type r) s)) @
           [Lock mPartnerLock, Store_mPartnerUp False,
            WriteFile (role_node w (c_str pn) (type r)) (convertRoletoString r)] @ rest"
    if "role_node w (c_str pn) (type r) \<noteq> ''''"
    using switchMode_trace_prefix[OF that, of tmo wakes s] by auto
  show ?thesis
    using a switchMode_stores[of w pn r tmo wakes s] switchMode_flag[of w pn r tmo wakes s]
      switchRole_stores[of w tmo wakes pn r s]
      switchRole_other_axes_fields(2)[of r w tmo wakes pn s]
      handle_typec_uevent_flag[of w msg s] handle_typec_uevent_stores[of w msg s]
    by (simp add: arn_fst)
qed

theorem partner_flag_reset_on_mode_switch_only_witness:
  "fst (appendRoleNodeHelper sysfs_accepting ''port0'' (type \<lparr>type = MODE, role = PortMode_DFP\<rparr>)
         (usb_init\<lparr>mPartnerUp := True\<rparr>)) \<noteq> '''' \<and>
   stores (trace (snd (switchMode sysfs_accepting 8 [spurious_wake] ''port0''
         \<lparr>type = MODE, role = PortMode_DFP\<rparr> (usb_init\<lparr>mPartnerUp := True\<rparr>)))) = [False] \<and>
   \<not> mPartnerUp (snd (switchMode sysfs_accepting 8 [spurious_wake] ''port0''
         \<lparr>type = MODE, role = PortMode_DFP\<rparr> (usb_init\<lparr>mPartnerUp := True\<rparr>))) \<and>
   mPartnerUp (handle_typec_uevent sysfs_accepting
         ''add@/devices/platform/soc/typec/port0/port0-partner'' usb_init) \<and>
   \<not> mPartnerUp (handle_typec_uevent sysfs_accepting
         ''change@/devices/platform/soc/typec/port0'' usb_init)"
  using partner_flag_reset_on_mode_switch_only[of sysfs_accepting "''port0''"
      "\<lparr>type = MODE, role = PortMode_DFP\<rparr>" "usb_init\<lparr>mPartnerUp := True\<rparr>" 8 "[spurious_wake]"
      "''add@/devices/platform/soc/typec/port0/port0-partner''"]
    partner_flag_reset_on_mode_switch_only[of sysfs_accepting "''port0''"
      "\<lparr>type = MODE, role = PortMode_DFP\<rparr>" "usb_init" 8 "[spurious_wake]"
      "''add@/devices/platform/soc/typec/port0/port0-partner''"]
    partner_flag_reset_on_mode_switch_only[of sysfs_accepting "''port0''"
      "\<lparr>type = MODE, role = PortMode_DFP\<rparr>" "usb_init" 8 "[spurious_wake]"
      "''change@/devices/platform/soc/typec/port0''"]
  by (simp add: sysfs_accepting_def usb_init_def appendRoleNodeHelper_def spurious_wake_def
      partner_added_def Let_def c_str_def)

section \<open>Status snapshot of disconnected ports\<close>

text \<open>
  Claim C7. For every port enumerated as disconnected, the status snapshot reports
  PowerRole, DataRole and Mode all as "none", and \<^verbatim>\<open>getCurrentRoleHelper\<close> performs no sysfs
  read for that port: with \<open>connected\<close> false it returns \<^verbatim>\<open>SUCCESS\<close> and the "none" value
  for each of the three axes, and leaves the object and the event log unchanged whatever
  the axis. The loop body
  of \<^verbatim>\<open>getPortStatusHelper\<close> succeeds on such a port, fills in "none" for all roles, and its
  only possible file access is the read of the contaminant status file (for \<open>port0\<close> in
  the extended layout, when a path is configured). In the snapshot returned by
  \<^verbatim>\<open>getPortStatusHelper\<close>, the element of each port enumerated as disconnected has all
  roles "none" (and carries that port's name when the snapshot succeeds).
\<close>

theorem disconnected_port_reports_none_without_reads:
  "(t \<noteq> OTHER_TYPE \<longrightarrow>
      getCurrentRoleHelper w pn False t cur s =
        ((SUCCESS, if t = POWER_ROLE then PortPowerRole_NONE
                   else if t = DATA_ROLE then PortDataRole_NONE else PortMode_NONE), s)) \<and>
   snd (getCurrentRoleHelper w pn False t cur s) = s \<and>
   fst (fst (port_status_body w V1_0 cp pn False p s)) \<and>
   roles_none (snd (fst (port_status_body w V1_0 cp pn False p s))) \<and>
   filter is_file_io (trace (snd (port_status_body w V1_0 cp pn False p s))) =
     filter is_file_io (trace s) @
     (if \<not> V1_0 \<and> pn = ''port0'' \<and> cp \<noteq> '''' then [ReadFile cp] else []) \<and>
   (\<forall>j < length (fst (getTypeCPortNamesHelper w s)).
      \<not> snd (fst (getTypeCPortNamesHelper w s) ! j) \<longrightarrow>
      roles_none (snd (fst (getPortStatusHelper w V1_0 cp s)) ! j) \<and>
      (fst (fst (getPortStatusHelper w V1_0 cp s)) = SUCCESS \<longrightarrow>
         portName (status (status_1_1 (snd (fst (getPortStatusHelper w V1_0 cp s)) ! j))) =
           fst (fst (getTypeCPortNamesHelper w s) ! j)))"
proof -
  have "snd (getCurrentRoleHelper w pn False t cur s) = s"
    by (simp add: getCurrentRoleHelper_def)
  then show ?thesis
    using gcr_disconnected[of t w pn cur s] psb_disconnected[of w V1_0 cp pn p s]
      gps_disconnected[of _ w s V1_0 cp] gps_names[of w V1_0 cp s]
    by simp
qed

theorem disconnected_port_reports_none_without_reads_witness:
  "fst (getTypeCPortNamesHelper sysfs_unplugged usb_init) = [(''port0'', False), (''port1'', False)] \<and>
   getCurrentRoleHelper sysfs_unplugged ''port1'' False MODE 7 usb_init =
     ((SUCCESS, PortMode_NONE), usb_init) \<and>
   roles_none (snd (fst (getPortStatusHelper sysfs_unplugged False '''' usb_init)) ! 1)"
  using disconnected_port_reports_none_without_reads[of MODE sysfs_unplugged "''port1''" 7 usb_init
      False "''''" PortStatus_init]
  by (simp add: getTypeCPortNamesHelper_def sysfs_unplugged_def names_insert_def Let_def)

section \<open>Unrecognized role values\<close>

text \<open>
  Claim C9 says that a readable role node with a value outside source, sink, host, device,
  none surfaces to the caller as the distinct \<^verbatim>\<open>UNRECOGNIZED_ROLE\<close> status. The code
  produces that status in \<^verbatim>\<open>getCurrentRoleHelper\<close> (line 332) and then loses it:
  \<^verbatim>\<open>getPortStatusHelper\<close>, the only caller, leaves through \<^verbatim>\<open>goto done\<close> on anything but
  \<^verbatim>\<open>SUCCESS\<close> and returns \<^verbatim>\<open>ERROR\<close>. On a connected \<open>port0\<close> whose \<^verbatim>\<open>port_type\<close> reads
  \<open>[dual] source sink\<close> the helper returns \<^verbatim>\<open>UNRECOGNIZED_ROLE\<close>, the snapshot returns
  \<^verbatim>\<open>ERROR\<close>, and \<^verbatim>\<open>ERROR\<close> is what \<^verbatim>\<open>queryPortStatus\<close> hands to the callback.
\<close>

theorem unrecognized_role_collapses_to_error:
  "fst (fst (getCurrentRoleHelper sysfs_port_type_dual ''port0'' True MODE 0 usb_init))
     = UNRECOGNIZED_ROLE \<and>
   fst (fst (getPortStatusHelper sysfs_port_type_dual False '''' usb_init)) = ERROR \<and>
   pushed_status (trace (queryPortStatus sysfs_port_type_dual
                           (usb_init\<lparr>mCallback_1_0 := Some CB_1_2\<rparr>))) = [ERROR]"
  by (simp add: getCurrentRoleHelper_def getAccessoryConnected_def ReadFileToString_def
      sysfs_port_type_dual_def Let_def emit_def Trim_def isspace_def appendRoleNodeHelper_def
      extractRole_def role_consts getPortStatusHelper_def getTypeCPortNamesHelper_def
      names_insert_def port_status_body_def usb_init_def queryPortStatus_def)

section \<open>Contaminant notifications\<close>

text \<open>
  Claim C8. On every power-supply uevent for the \<open>usb\<close> supply for which
  \<^verbatim>\<open>handle_psy_uevent\<close> reads the contaminant status (a 1.2 callback is registered, the
  status path is configured and readable), a status notification is pushed to the callback
  if and only if the value just read differs from the recorded \<^verbatim>\<open>mContaminantPresence\<close>:
  exactly one \<^verbatim>\<open>notifyPortStatusChange_1_2\<close> when it differs, none when it is the same.
  The recorded value afterwards is the value read, so handling the same reading again
  pushes nothing. When no reading is made, nothing is pushed and the recorded value stays.
\<close>

theorem contaminant_push_iff_changed:
  "(mCallback_1_0 s = Some CB_1_2 \<and> psy_name_is_usb msg \<and> mContaminantStatusPath s \<noteq> '''' \<and>
    file_content w (mContaminantStatusPath s) = Some c \<longrightarrow>
      (first_char_is (CHR ''1'') c \<noteq> mContaminantPresence s \<longrightarrow>
         (\<exists>v st. status_pushes (trace (handle_psy_uevent w busy msg s)) =
                    status_pushes (trace s) @ [NotifyPortStatusChange_1_2 v st])) \<and>
      (first_char_is (CHR ''1'') c = mContaminantPresence s \<longrightarrow>
         status_pushes (trace (handle_psy_uevent w busy msg s)) = status_pushes (trace s)) \<and>
      mContaminantPresence (handle_psy_uevent w busy msg s) = first_char_is (CHR ''1'') c \<and>
      status_pushes (trace (handle_psy_uevent w busy' msg (handle_psy_uevent w busy msg s))) =
        status_pushes (trace (handle_psy_uevent w busy msg s))) \<and>
   (mCallback_1_0 s \<noteq> Some CB_1_2 \<or> \<not> psy_name_is_usb msg \<or> mContaminantStatusPath s = '''' \<or>
    file_content w (mContaminantStatusPath s) = None \<longrightarrow>
      status_pushes (trace (handle_psy_uevent w busy msg s)) = status_pushes (trace s) \<and>
      mContaminantPresence (handle_psy_uevent w busy msg s) = mContaminantPresence s)"
proof (intro conjI impI)
  assume a: "mCallback_1_0 s = Some CB_1_2 \<and> psy_name_is_usb msg \<and>
     mContaminantStatusPath s \<noteq> '''' \<and> file_content w (mContaminantStatusPath s) = Some c"
  then have h: "mCallback_1_0 s = Some CB_1_2" "psy_name_is_usb msg"
      "mContaminantStatusPath s \<noteq> ''''" "file_content w (mContaminantStatusPath s) = Some c"
    by simp_all
  note r = handle_psy_reading[OF h, of busy]
  show "first_char_is (CHR ''1'') c \<noteq> mContaminantPresence s \<Longrightarrow>
      \<exists>v st. status_pushes (trace (handle_psy_uevent w busy msg s)) =
               status_pushes (trace s) @ [NotifyPortStatusChange_1_2 v st]"
    by (rule r(1))
  show "first_char_is (CHR ''1'') c = mContaminantPresence s \<Longrightarrow>
      status_pushes (trace (handle_psy_uevent w busy msg s)) = status_pushes (trace s)"
    by (rule r(2))
  show "mContaminantPresence (handle_psy_uevent w busy msg s) = first_char_is (CHR ''1'') c"
    by (rule r(3))
  let ?s' = "handle_psy_uevent w busy msg s"
  have h': "mCallback_1_0 ?s' = Some CB_1_2" "psy_name_is_usb msg"
      "mContaminantStatusPath ?s' \<noteq> ''''" "file_content w (mContaminantStatusPath ?s') = Some c"
    using h r(4,5) by simp_all
  show "status_pushes (trace (handle_psy_uevent w busy' msg ?s')) = status_pushes (trace ?s')"
    by (rule handle_psy_reading(2)[OF h']) (simp add: r(3))
next
  assume "mCallback_1_0 s \<noteq> Some CB_1_2 \<or> \<not> psy_name_is_usb msg \<or>
     mContaminantStatusPath s = '''' \<or> file_content w (mContaminantStatusPath s) = None"
  then show "status_pushes (trace (handle_psy_uevent w busy msg s)) = status_pushes (trace s)"
    by (rule handle_psy_no_reading(1))
next
  assume "mCallback_1_0 s \<noteq> Some CB_1_2 \<or> \<not> psy_name_is_usb msg \<or>
     mContaminantStatusPath s = '''' \<or> file_content w (mContaminantStatusPath s) = None"
  then show "mContaminantPresence (handle_psy_uevent w busy msg s) = mContaminantPresence s"
    by (rule handle_psy_no_reading(2))
qed

theorem contaminant_push_iff_changed_witness:
  "mCallback_1_0 usb_contaminant_aware = Some CB_1_2 \<and> psy_name_is_usb psy_usb_uevent \<and>
   mContaminantStatusPath usb_contaminant_aware \<noteq> '''' \<and>
   file_content sysfs_moisture (mContaminantStatusPath usb_contaminant_aware) = Some (''1'' @ [CHR 0x0A]) \<and>
   first_char_is (CHR ''1'') (''1'' @ [CHR 0x0A]) \<noteq> mContaminantPresence usb_contaminant_aware \<and>
   (\<exists>v st. status_pushes (trace (handle_psy_uevent sysfs_moisture False psy_usb_uevent
                                    usb_contaminant_aware)) = [NotifyPortStatusChange_1_2 v st]) \<and>
   mContaminantPresence (handle_psy_uevent sysfs_moisture False psy_usb_uevent usb_contaminant_aware) \<and>
   status_pushes (trace (handle_psy_uevent sysfs_moisture False psy_usb_uevent
        (handle_psy_uevent sysfs_moisture False psy_usb_uevent usb_contaminant_aware))) =
     status_pushes (trace (handle_psy_uevent sysfs_moisture False psy_usb_uevent
        usb_contaminant_aware))"
  using contaminant_push_iff_changed[of usb_contaminant_aware psy_usb_uevent sysfs_moisture
      "''1'' @ [CHR 0x0A]" False False]
  by (simp add: usb_contaminant_aware_def usb_init_def psy_usb_uevent_def sysfs_moisture_def
      first_char_is_def)

end
